theory Spec2Isabelle
  imports Complex_Main "HOL-Library.Sublist" "HOL-Library.AList"
begin

section \<open>The Poloniex integration of ccxt-js: normalisation, order cache, errors\<close>

text \<open>
  The development embeds the class \<^verbatim>\<open>poloniex\<close> of \<^verbatim>\<open>src/js/poloniex.js\<close>, the file
  that \<^verbatim>\<open>src/js/ccxt.js\<close> loads. \<^verbatim>\<open>src/unnamed/part_000\<close> holds two earlier copies of
  the class, which no file loads; a difference between them and the loaded class is
  noted where it bears on a property.

  Conventions of the embedding.
  \<^item> A JavaScript object used as a dictionary is an association list in insertion
    order; \<^verbatim>\<open>k in obj\<close> is membership of \<open>k\<close> in its keys and \<^verbatim>\<open>obj[k] = v\<close> is
    \<^const>\<open>AList.update\<close>. The names that every object inherits from \<^verbatim>\<open>Object.prototype\<close>
    are modelled where the key is the text of a message of the exchange (\<open>handleErrors\<close>);
    order numbers, market ids and currency codes are taken not to be such names. The
    numeric order in which keys that are integers are enumerated is not modelled.
  \<^item> A value that may be \<^verbatim>\<open>undefined\<close> has an option type, \<open>None\<close> being
    \<^verbatim>\<open>undefined\<close> (or an absent key).
  \<^item> A JavaScript number is a \<^typ>\<open>real\<close>: rounding of IEEE doubles is not modelled.
  \<^item> A \<^verbatim>\<open>throw\<close> is the left injection of a sum; an exception is its class together
    with its message.
  \<^item> Methods of the base class \<^verbatim>\<open>Exchange\<close>, which is not among the sources, are
    either fields of the record \<open>exchange\<close> (so every theorem holds for each of their
    possible behaviours) or are modelled from the specification, and then say so.
\<close>

subsection \<open>Error taxonomy\<close>

datatype error_kind =
    ExchangeError | AuthenticationError | PermissionDenied | InvalidNonce
  | InsufficientFunds | InvalidOrder | OrderNotFound | AccountSuspended
  | CancelPending | RequestTimeout | ExchangeNotAvailable | DDoSProtection
  | TypeError | StringObject

type_synonym exn = "error_kind \<times> string"

record exceptions =
  exact :: "(string \<times> error_kind) list"
  broad :: "(string \<times> error_kind) list"

text \<open>The table \<^verbatim>\<open>'exceptions'\<close> of \<^verbatim>\<open>describe ()\<close>, \<^verbatim>\<open>src/js/poloniex.js\<close> lines 167-188.\<close>

definition poloniex_exceptions :: exceptions where
  "poloniex_exceptions = \<lparr>
     exact = [
       (''You may only place orders that reduce your position.'', InvalidOrder),
       (''Invalid order number, or you are not the person who placed the order.'', OrderNotFound),
       (''Permission denied'', PermissionDenied),
       (''Connection timed out. Please try again.'', RequestTimeout),
       (''Internal error. Please try again.'', ExchangeNotAvailable),
       (''Order not found, or you are not the person who placed it.'', OrderNotFound),
       (''Invalid API key/secret pair.'', AuthenticationError),
       (''Please do not make more than 8 API calls per second.'', DDoSProtection),
       (''Rate must be greater than zero.'', InvalidOrder)],
     broad = [
       (''Total must be at least'', InvalidOrder),
       (''This account is frozen.'', AccountSuspended),
       (''Not enough'', InsufficientFunds),
       (''Nonce must be greater'', InvalidNonce),
       (''You have already called cancelOrder or moveOrder on this order.'', CancelPending),
       (''Amount must be at least'', InvalidOrder),
       (''is either completed or does not exist'', InvalidOrder)] \<rparr>"

text \<open>
  Modelled from the spec: \<^verbatim>\<open>findBroadlyMatchedKey\<close> is a method of the base class, which
  is not among the sources. The specification (4.1, step 2) says: scan the table of
  substrings; the first substring found in the message wins, table order being the
  tie-break. \<^const>\<open>sublist\<close> is the contiguous-substring relation.
\<close>

fun findBroadlyMatchedKey :: "(string \<times> 'a) list \<Rightarrow> string \<Rightarrow> string option" where
  "findBroadlyMatchedKey [] message = None"
| "findBroadlyMatchedKey ((key, v) # rest) message =
     (if sublist key message then Some key else findBroadlyMatchedKey rest message)"

text \<open>
  The tables of \<^verbatim>\<open>this.exceptions\<close> are plain objects, and \<^verbatim>\<open>message in exact\<close> also holds
  for the names that a plain object inherits from \<^verbatim>\<open>Object.prototype\<close>. Under
  \<^verbatim>\<open>'constructor'\<close> it finds \<^verbatim>\<open>Object\<close>, and \<^verbatim>\<open>new Object (message)\<close> is a String object
  (the kind \<open>StringObject\<close>, no error of the taxonomy); under each of the others it finds
  a value that is no constructor, and \<^verbatim>\<open>new\<close> throws a \<open>TypeError\<close>.
\<close>

definition object_prototype_names :: "string list" where
  "object_prototype_names =
     [''constructor'', ''__defineGetter__'', ''__defineSetter__'', ''hasOwnProperty'',
      ''__lookupGetter__'', ''__lookupSetter__'', ''isPrototypeOf'',
      ''propertyIsEnumerable'', ''toString'', ''valueOf'', ''__proto__'',
      ''toLocaleString'']"

text \<open>
  \<^verbatim>\<open>handleErrors (code, reason, url, method, headers, body, response)\<close>,
  \<^verbatim>\<open>src/js/poloniex.js\<close> lines 1420-1437. Only \<^verbatim>\<open>response\<close> is used: \<open>None\<close> is an
  undefined response, \<open>Some None\<close> a response without the key \<^verbatim>\<open>'error'\<close>, and
  \<open>Some (Some message)\<close> a response with it. The result is \<open>Inr ()\<close> when the method
  returns and \<open>Inl\<close> of the exception when it throws.
\<close>

definition handleErrors :: "exceptions \<Rightarrow> string option option \<Rightarrow> exn + unit" where
  "handleErrors ex response =
     (case response of
        None \<Rightarrow> Inr ()
      | Some None \<Rightarrow> Inr ()
      | Some (Some message) \<Rightarrow>
          (case map_of (exact ex) message of
             Some kind \<Rightarrow> Inl (kind, message)
           | None \<Rightarrow>
               (if message \<in> set object_prototype_names then
                  (if message = ''constructor'' then Inl (StringObject, message)
                   else Inl (TypeError, ''exact[message] is not a constructor''))
                else
                  (case findBroadlyMatchedKey (broad ex) message of
                     Some broadKey \<Rightarrow>
                       (case map_of (broad ex) broadKey of
                          Some kind \<Rightarrow> Inl (kind, message)
                        | None \<Rightarrow> Inl (TypeError, ''broad[broadKey] is not a constructor''))
                   | None \<Rightarrow> Inl (ExchangeError, message)))))"

subsection \<open>Values, markets and the exchange instance\<close>

text \<open>
  String concatenation turns \<^verbatim>\<open>undefined\<close> into the text \<^verbatim>\<open>undefined\<close>; the same holds
  for a property key.
\<close>

definition js_string :: "string option \<Rightarrow> string" where
  "js_string v = (case v of None \<Rightarrow> ''undefined'' | Some s \<Rightarrow> s)"

text \<open>\<^verbatim>\<open>s.split (c)\<close> for a separator of one character, and \<^verbatim>\<open>parts[i]\<close>.\<close>

fun split :: "char \<Rightarrow> string \<Rightarrow> string list" where
  "split c [] = [[]]"
| "split c (x # xs) =
     (if x = c then [] # split c xs
      else (case split c xs of [] \<Rightarrow> [[x]] | p # ps \<Rightarrow> (x # p) # ps))"

definition at_index :: "'a list \<Rightarrow> nat \<Rightarrow> 'a option" where
  "at_index xs i = (if i < length xs then Some (xs ! i) else None)"

text \<open>
  A number that may be \<^verbatim>\<open>NaN\<close>: arithmetic on an \<^verbatim>\<open>undefined\<close> operand gives \<^verbatim>\<open>NaN\<close>.
\<close>

datatype number = Num real | NaN

fun times_number :: "real option \<Rightarrow> real option \<Rightarrow> number" where
  "times_number (Some a) (Some b) = Num (a * b)"
| "times_number a b = NaN"

fun plus_number :: "number \<Rightarrow> number \<Rightarrow> number" where
  "plus_number (Num a) (Num b) = Num (a + b)"
| "plus_number a b = NaN"

text \<open>\<^verbatim>\<open>Number (v)\<close> for a value that is a number or \<^verbatim>\<open>undefined\<close>.\<close>

definition to_number :: "real option \<Rightarrow> number" where
  "to_number v = (case v of Some a \<Rightarrow> Num a | None \<Rightarrow> NaN)"

text \<open>
  \<^verbatim>\<open>this.extend (defaults, overrides)\<close> on one key: the second object wins where it has
  the key.
\<close>

definition or_else :: "'a option \<Rightarrow> 'a option \<Rightarrow> 'a option" where
  "or_else v d = (case v of Some x \<Rightarrow> Some x | None \<Rightarrow> d)"

text \<open>
  Modelled from the spec: \<^verbatim>\<open>sum\<close> is a method of the base class, which is not among the
  sources. The specification (3, 8) has \<open>total = free + used\<close> for the balance that
  \<^verbatim>\<open>fetchBalance\<close> builds with it, so \<open>sum_js\<close> adds its two operands. The specification
  does not say what becomes of an operand that is \<^verbatim>\<open>undefined\<close>: here it is left out of
  the sum, and no property below depends on that choice.
\<close>

fun sum_js :: "real option \<Rightarrow> real option \<Rightarrow> real option" where
  "sum_js (Some a) (Some b) = Some (a + b)"
| "sum_js (Some a) None = Some a"
| "sum_js None b = b"

record market =
  market_id :: string
  market_symbol :: string
  base :: string
  quote :: string

record raw_trade =
  globalTradeID :: "string option"
  trade_orderNumber :: "string option"
  trade_date :: "string option"
  trade_currencyPair :: "string option"
  trade_type :: "string option"
  trade_rate :: "real option"
  trade_total :: "real option"
  trade_amount :: "real option"
  trade_fee :: "real option"

text \<open>The trade returned by \<^verbatim>\<open>parseTrade\<close> of \<^verbatim>\<open>src/js/poloniex.js\<close>.\<close>

record trade =
  t_timestamp :: "int option"
  t_symbol :: "string option"
  t_id :: "string option"
  t_order :: "string option"
  t_type :: string
  t_side :: "string option"
  t_price :: "real option"
  t_amount :: "real option"
  t_cost :: "real option"
  t_fee :: number

text \<open>The order returned by \<^verbatim>\<open>parseOrder\<close> and kept in the cache \<^verbatim>\<open>this.orders\<close>.\<close>

record order =
  order_id :: "string option"
  order_timestamp :: "int option"
  order_lastTradeTimestamp :: "int option"
  order_status :: "string option"
  order_symbol :: "string option"
  order_type :: "string option"
  order_side :: "string option"
  order_price :: real
  order_cost :: "real option"
  order_amount :: "real option"
  order_filled :: "real option"
  order_remaining :: "real option"
  order_trades :: "trade list option"
  order_fee :: real

type_synonym orders = "(string \<times> order) list"

text \<open>
  The instance \<^verbatim>\<open>this\<close>, as far as the methods below read it. The markets are loaded
  (\<^verbatim>\<open>await this.loadMarkets ()\<close> returns at once). The fields that are functions are
  methods of the base class, absent from the sources, and are left arbitrary:
  \<^item> \<open>market_of\<close> is \<^verbatim>\<open>this.market (symbol)\<close>, which throws for an unknown symbol;
  \<^item> \<open>priceToPrecision\<close>, \<open>costToPrecision\<close>, \<open>feeToPrecision\<close>, \<open>amountToPrecision\<close>
    stand for \<^verbatim>\<open>Number (this.xToPrecision (symbol, x))\<close>, and may throw;
  \<^item> \<open>parse8601\<close>, \<open>parseTrades\<close> and \<open>filterBySinceLimit\<close> are the methods of these
    names (\<^verbatim>\<open>parseTrades\<close> without \<^verbatim>\<open>since\<close> and \<^verbatim>\<open>limit\<close>).
\<close>

record exchange =
  markets_by_id :: "(string \<times> market) list"
  market_of :: "string \<Rightarrow> exn + market"
  commonCurrencies :: "(string \<times> string) list"
  priceToPrecision :: "string option \<Rightarrow> real option \<Rightarrow> exn + real"
  costToPrecision :: "string option \<Rightarrow> number \<Rightarrow> exn + real"
  feeToPrecision :: "string option \<Rightarrow> number \<Rightarrow> exn + real"
  amountToPrecision :: "string option \<Rightarrow> real \<Rightarrow> exn + real"
  parse8601 :: "string option \<Rightarrow> int option"
  parseTrades :: "raw_trade list \<Rightarrow> market option \<Rightarrow> trade list"
  filterBySinceLimit :: "order list \<Rightarrow> int option \<Rightarrow> nat option \<Rightarrow> order list"

text \<open>The table \<^verbatim>\<open>'commonCurrencies'\<close> of \<^verbatim>\<open>describe ()\<close>, \<^verbatim>\<open>src/js/poloniex.js\<close> lines 138-154.\<close>

definition poloniex_commonCurrencies :: "(string \<times> string) list" where
  "poloniex_commonCurrencies = [
     (''AIR'', ''AirCoin''), (''APH'', ''AphroditeCoin''), (''BCC'', ''BTCtalkcoin''),
     (''BDG'', ''Badgercoin''), (''BTM'', ''Bitmark''), (''CON'', ''Coino''),
     (''GOLD'', ''GoldEagles''), (''GPUC'', ''GPU''), (''HOT'', ''Hotcoin''),
     (''ITC'', ''Information Coin''), (''PLX'', ''ParallaxCoin''), (''KEY'', ''KEYCoin''),
     (''STR'', ''XLM''), (''SOC'', ''SOCC''), (''XAP'', ''API Coin'')]"

text \<open>
  Modelled from the spec: \<^verbatim>\<open>commonCurrencyCode\<close> is a method of the base class, which is
  not among the sources. The specification (4.2) calls the remapping a fixed table
  translating legacy or rebranded ticker symbols to canonical codes; a code that the table
  does not list is kept, and \<^verbatim>\<open>undefined\<close> stays \<^verbatim>\<open>undefined\<close>.
\<close>

definition commonCurrencyCode :: "exchange \<Rightarrow> string option \<Rightarrow> string option" where
  "commonCurrencyCode ex currency =
     (case currency of
        None \<Rightarrow> None
      | Some c \<Rightarrow> (case map_of (commonCurrencies ex) c of Some code \<Rightarrow> Some code | None \<Rightarrow> Some c))"

subsection \<open>Market resolution in the response normalizer\<close>

text \<open>
  \<^verbatim>\<open>parseTrade (trade, market = undefined)\<close>, \<^verbatim>\<open>src/js/poloniex.js\<close> lines 666-712.
\<close>

definition parseTrade :: "exchange \<Rightarrow> raw_trade \<Rightarrow> market option \<Rightarrow> trade" where
  "parseTrade ex trade market0 =
     (let id = globalTradeID trade;
          orderId = trade_orderNumber trade;
          timestamp = parse8601 ex (trade_date trade);
          (market, symbol0) =
            (case (market0, trade_currencyPair trade) of
               (None, Some pair) \<Rightarrow>
                 (case map_of (markets_by_id ex) pair of
                    Some m \<Rightarrow> (Some m, None)
                  | None \<Rightarrow>
                      (let parts = split CHR ''_'' pair;
                           quote = at_index parts 0;
                           base = at_index parts 1
                       in (None, Some (js_string base @ ''/'' @ js_string quote))))
             | _ \<Rightarrow> (market0, None));
          symbol = (case market of Some m \<Rightarrow> Some (market_symbol m) | None \<Rightarrow> symbol0);
          side = trade_type trade;
          price = trade_rate trade;
          cost = trade_total trade;
          amount = trade_amount trade;
          feePer = trade_fee trade;
          fee = (if side = Some ''buy'' then times_number amount feePer
                 else if side = Some ''sell'' then times_number cost feePer
                 else Num 0)
      in \<lparr> t_timestamp = timestamp, t_symbol = symbol, t_id = id, t_order = orderId,
           t_type = ''limit'', t_side = side, t_price = price, t_amount = amount,
           t_cost = cost, t_fee = fee \<rparr>)"

text \<open>
  The keys of the object that \<^verbatim>\<open>parseTrade\<close> returns, in the order of the literal,
  \<^verbatim>\<open>src/js/poloniex.js\<close> lines 699-711. The record \<open>trade\<close> has a field for each of
  them but \<^verbatim>\<open>'datetime'\<close>, which repeats the timestamp as a text.
\<close>

definition parseTrade_keys :: "string list" where
  "parseTrade_keys =
     [''timestamp'', ''datetime'', ''symbol'', ''id'', ''order'', ''type'', ''side'',
      ''price'', ''amount'', ''cost'', ''fee'']"

text \<open>
  \<^verbatim>\<open>trade[key]\<close> read as a number, for a trade that \<^verbatim>\<open>parseTrade\<close> returned: the value of
  the key where it is a number, and \<open>None\<close> where it is \<^verbatim>\<open>undefined\<close> or the object has no
  such key.
\<close>

definition trade_number :: "trade \<Rightarrow> string \<Rightarrow> number option" where
  "trade_number trade key =
     (if key = ''timestamp'' then map_option (\<lambda>t. Num (real_of_int t)) (t_timestamp trade)
      else if key = ''price'' then map_option Num (t_price trade)
      else if key = ''amount'' then map_option Num (t_amount trade)
      else if key = ''cost'' then map_option Num (t_cost trade)
      else if key = ''fee'' then Some (t_fee trade)
      else None)"

text \<open>
  The symbol that the loop body of \<^verbatim>\<open>fetchTickers\<close> computes for the key \<^verbatim>\<open>id\<close> of the
  response, \<^verbatim>\<open>src/js/poloniex.js\<close> lines 596-608 (\<open>id'\<close> is the source's \<^verbatim>\<open>id\<close>).
\<close>

definition fetchTickers_symbol :: "exchange \<Rightarrow> string \<Rightarrow> string" where
  "fetchTickers_symbol ex id' =
     (case map_of (markets_by_id ex) id' of
        Some market \<Rightarrow> market_symbol market
      | None \<Rightarrow>
          (let parts = split CHR ''_'' id';
               quoteId = at_index parts 0;
               baseId = at_index parts 1;
               base = commonCurrencyCode ex baseId;
               quote = commonCurrencyCode ex quoteId
           in js_string base @ ''/'' @ js_string quote))"

text \<open>
  The symbol that the loop body of \<^verbatim>\<open>fetchOrderBooks\<close> computes for the key
  \<^verbatim>\<open>marketId\<close> of the response, \<^verbatim>\<open>src/js/poloniex.js\<close> lines 525-534.
\<close>

definition fetchOrderBooks_symbol :: "exchange \<Rightarrow> string \<Rightarrow> string" where
  "fetchOrderBooks_symbol ex marketId =
     (case map_of (markets_by_id ex) marketId of
        Some market \<Rightarrow> market_symbol market
      | None \<Rightarrow>
          (let parts = split CHR ''_'' marketId;
               quoteId = at_index parts 0;
               baseId = at_index parts 1;
               base = commonCurrencyCode ex baseId;
               quote = commonCurrencyCode ex quoteId
           in js_string base @ ''/'' @ js_string quote))"

text \<open>
  The trades that the loop body of \<^verbatim>\<open>fetchMyTrades\<close> (no symbol given) appends for the key
  \<^verbatim>\<open>id\<close> of the response, \<^verbatim>\<open>src/js/poloniex.js\<close> lines 751-771: for a listed market the
  trades parsed by \<^verbatim>\<open>parseTrades\<close>, otherwise each trade parsed by \<^verbatim>\<open>parseTrade\<close> and
  its symbol overwritten.
\<close>

definition fetchMyTrades_trades :: "exchange \<Rightarrow> string \<Rightarrow> raw_trade list \<Rightarrow> trade list" where
  "fetchMyTrades_trades ex id' trades =
     (case map_of (markets_by_id ex) id' of
        Some market \<Rightarrow> parseTrades ex trades (Some market)
      | None \<Rightarrow>
          (let parts = split CHR ''_'' id';
               quoteId = at_index parts 0;
               baseId = at_index parts 1;
               base = commonCurrencyCode ex baseId;
               quote = commonCurrencyCode ex quoteId;
               symbol = js_string base @ ''/'' @ js_string quote
           in map (\<lambda>t. (parseTrade ex t None)\<lparr>t_symbol := Some symbol\<rparr>) trades))"

subsection \<open>Orders: parsing, the cache and its reconciliation\<close>

text \<open>
  An order as the exchange sends it, or as \<^verbatim>\<open>createOrder\<close> and \<^verbatim>\<open>parseOpenOrders\<close>
  extend it before parsing: the keys that \<^verbatim>\<open>parseOrder\<close> reads.
\<close>

record raw_order =
  orderNumber :: "string option"
  raw_timestamp :: "int option"
  raw_date :: "string option"
  currencyPair :: "string option"
  raw_price :: "real option"
  raw_rate :: "real option"
  raw_amount :: "real option"
  startingAmount :: "real option"
  raw_status :: "string option"
  raw_type :: "string option"
  raw_side :: "string option"
  resultingTrades :: "raw_trade list option"

text \<open>\<^verbatim>\<open>parseOrderStatus (status)\<close>, \<^verbatim>\<open>src/js/poloniex.js\<close> lines 778-784.\<close>

definition parseOrderStatus :: "string option \<Rightarrow> string option" where
  "parseOrderStatus status =
     (case status of
        None \<Rightarrow> None
      | Some s \<Rightarrow>
          (case map_of [(''Open'', ''open''), (''Partially filled'', ''open'')] s of
             Some v \<Rightarrow> Some v
           | None \<Rightarrow> Some s))"

text \<open>
  The body of the \<^verbatim>\<open>trades.forEach\<close> in \<^verbatim>\<open>parseOrder\<close>, lines 823-833, on the tuple
  \<open>(filled, cost, tradePrice, fee)\<close>. A parsed trade has no key \<^verbatim>\<open>'date'\<close>, so
  \<^verbatim>\<open>tradeTimestamp\<close> is \<^verbatim>\<open>undefined\<close> and \<^verbatim>\<open>lastTradeTimestamp\<close> is never assigned.
\<close>

definition parseOrder_trade ::
  "real option \<times> number \<times> number \<times> number \<Rightarrow> trade \<Rightarrow> real option \<times> number \<times> number \<times> number" where
  "parseOrder_trade acc trade =
     (case acc of (filled, cost, tradePrice, fee) \<Rightarrow>
        (sum_js filled (t_amount trade),
         plus_number cost (to_number (t_cost trade)),
         plus_number tradePrice (to_number (t_price trade)),
         plus_number fee (t_fee trade)))"

text \<open>\<^verbatim>\<open>parseOrder (order, market = undefined)\<close>, \<^verbatim>\<open>src/js/poloniex.js\<close> lines 786-863.\<close>

definition parseOrder :: "exchange \<Rightarrow> raw_order \<Rightarrow> market option \<Rightarrow> exn + order" where
  "parseOrder ex order market0 =
     (let timestamp0 = raw_timestamp order;
          timestamp = (if timestamp0 = None \<or> timestamp0 = Some 0
                       then parse8601 ex (raw_date order) else timestamp0);
          trades = (case resultingTrades order of
                      Some ts \<Rightarrow> Some (parseTrades ex ts market0)
                    | None \<Rightarrow> None);
          marketId = currencyPair order;
          market = (case marketId of
                      None \<Rightarrow> market0
                    | Some mid \<Rightarrow> or_else (map_of (markets_by_id ex) mid) market0);
          symbol = (case market of Some m \<Rightarrow> Some (market_symbol m) | None \<Rightarrow> None);
          price0 = or_else (raw_price order) (raw_rate order);
          remaining = raw_amount order;
          amount = or_else (startingAmount order) remaining;
          (filled0, cost0) =
            (case (amount, remaining) of
               (Some a, Some r) \<Rightarrow>
                 (Some (a - r), (case price0 of Some p \<Rightarrow> Num ((a - r) * p) | None \<Rightarrow> Num 0))
             | _ \<Rightarrow> (None, Num 0));
          (filled, cost, price, fee) =
            (case (filled0, trades) of
               (None, Some ts) \<Rightarrow>
                 (case foldl parseOrder_trade (Some 0, Num 0, Num 0, Num 0) ts of
                    (f, c, tradePrice, fe) \<Rightarrow>
                      (f, c,
                       (case tradePrice of
                          Num tp \<Rightarrow> (if tp \<noteq> 0 then Some (tp / real (length ts)) else price0)
                        | NaN \<Rightarrow> price0),
                       fe))
             | _ \<Rightarrow> (filled0, cost0, price0, Num 0));
          status = parseOrderStatus (raw_status order);
          type0 = raw_type order;
          side = or_else (raw_side order) type0;
          type = (if type0 = side then None else type0);
          id = orderNumber order
      in case priceToPrecision ex symbol price of
           Inl e \<Rightarrow> Inl e
         | Inr p \<Rightarrow>
             (case costToPrecision ex symbol cost of
                Inl e \<Rightarrow> Inl e
              | Inr c \<Rightarrow>
                  (case feeToPrecision ex symbol fee of
                     Inl e \<Rightarrow> Inl e
                   | Inr fe \<Rightarrow>
                       Inr \<lparr> order_id = id, order_timestamp = timestamp,
                             order_lastTradeTimestamp = None, order_status = status,
                             order_symbol = symbol, order_type = type, order_side = side,
                             order_price = p, order_cost = Some c, order_amount = amount,
                             order_filled = filled, order_remaining = remaining,
                             order_trades = trades, order_fee = fe \<rparr>)))"

text \<open>
  \<^verbatim>\<open>parseOpenOrders (orders, market, result)\<close>, \<^verbatim>\<open>src/js/poloniex.js\<close> lines 865-877.
\<close>

fun parseOpenOrders ::
  "exchange \<Rightarrow> raw_order list \<Rightarrow> market option \<Rightarrow> order list \<Rightarrow> exn + order list" where
  "parseOpenOrders ex [] market result = Inr result"
| "parseOpenOrders ex (order # orders) market result =
     (let extended = order\<lparr> raw_status := Some ''open'', raw_type := Some ''limit'',
                             raw_side := raw_type order, raw_price := raw_rate order \<rparr>
      in case parseOrder ex extended market of
           Inl e \<Rightarrow> Inl e
         | Inr parsed \<Rightarrow> parseOpenOrders ex orders market (result @ [parsed]))"

text \<open>
  The reply of \<^verbatim>\<open>returnOpenOrders\<close>: a list of orders when a currency pair was asked for,
  a dictionary from market ids to lists of orders when \<^verbatim>\<open>'all'\<close> was.
\<close>

datatype open_orders_response =
    PairOrders "raw_order list"
  | AllOrders "(string \<times> raw_order list) list"

text \<open>The loop over \<^verbatim>\<open>marketIds\<close> in \<^verbatim>\<open>fetchOrders\<close>, lines 895-900.\<close>

fun parseAllOpenOrders ::
  "exchange \<Rightarrow> (string \<times> raw_order list) list \<Rightarrow> order list \<Rightarrow> exn + order list" where
  "parseAllOpenOrders ex [] openOrders = Inr openOrders"
| "parseAllOpenOrders ex ((marketId, orders) # rest) openOrders =
     (let m = map_of (markets_by_id ex) marketId
      in case parseOpenOrders ex orders m openOrders of
           Inl e \<Rightarrow> Inl e
         | Inr openOrders' \<Rightarrow> parseAllOpenOrders ex rest openOrders')"

text \<open>
  Lines 890-901 of \<^verbatim>\<open>fetchOrders\<close>. With a market the reply is iterated as a list (a
  dictionary is not iterable); without one its keys are enumerated and each value is
  iterated as a list (the elements of a non-empty list of orders are not iterable).
\<close>

definition fetchOrders_parse ::
  "exchange \<Rightarrow> market option \<Rightarrow> open_orders_response \<Rightarrow> exn + order list" where
  "fetchOrders_parse ex market response =
     (case (market, response) of
        (Some m, PairOrders orders) \<Rightarrow> parseOpenOrders ex orders (Some m) []
      | (Some m, AllOrders d) \<Rightarrow> Inl (TypeError, ''orders is not iterable'')
      | (None, AllOrders d) \<Rightarrow> parseAllOpenOrders ex d []
      | (None, PairOrders []) \<Rightarrow> Inr []
      | (None, PairOrders (x # xs)) \<Rightarrow> Inl (TypeError, ''orders is not iterable''))"

text \<open>
  The orders of a reply in the order in which they are parsed, and the keys under which
  \<^verbatim>\<open>fetchOrders\<close> files them: \<^verbatim>\<open>parseOrder\<close> takes the id from \<^verbatim>\<open>'orderNumber'\<close>.
\<close>

fun response_orders :: "open_orders_response \<Rightarrow> raw_order list" where
  "response_orders (PairOrders orders) = orders"
| "response_orders (AllOrders d) = concat (map snd d)"

definition response_ids :: "open_orders_response \<Rightarrow> string list" where
  "response_ids response = map (\<lambda>order. js_string (orderNumber order)) (response_orders response)"

text \<open>
  The key of \<^verbatim>\<open>this.orders[order['id']]\<close>, and the upsert loop of \<^verbatim>\<open>fetchOrders\<close>,
  lines 902-904.
\<close>

definition order_key :: "order \<Rightarrow> string" where
  "order_key openOrder = js_string (order_id openOrder)"

definition upsert :: "orders \<Rightarrow> order list \<Rightarrow> orders" where
  "upsert orders openOrders =
     foldl (\<lambda>os openOrder. AList.update (order_key openOrder) openOrder os) orders openOrders"

text \<open>
  Modelled from the spec: \<^verbatim>\<open>indexBy\<close> is a method of the base class, which is not among
  the sources. \<^verbatim>\<open>fetchOrders\<close> uses \<^verbatim>\<open>indexBy (openOrders, 'id')\<close> to decide what the
  specification (4.3, step 4) calls a cached order present in the fresh open-orders
  response: a dictionary from the id of each parsed order to that order, a later order
  replacing an earlier one of the same id.
\<close>

definition indexBy :: "order list \<Rightarrow> orders" where
  "indexBy openOrders = upsert [] openOrders"

text \<open>
  Lines 913-927 of \<^verbatim>\<open>fetchOrders\<close>: what becomes of a cached order that the reply does
  not list.
\<close>

definition close_if_open :: "order \<Rightarrow> order" where
  "close_if_open order0 =
     (if order_status order0 = Some ''open'' then
        (let order = order0\<lparr> order_status := Some ''closed'', order_cost := None,
                               order_filled := order_amount order0,
                               order_remaining := Some 0 \<rparr>
         in if order_cost order = None then
              (case order_filled order of
                 Some filled \<Rightarrow> order\<lparr> order_cost := Some (filled * order_price order) \<rparr>
               | None \<Rightarrow> order)
            else order)
      else order0)"

text \<open>
  The loop over \<^verbatim>\<open>cachedOrderIds\<close> of \<^verbatim>\<open>fetchOrders\<close>, lines 908-937. Both objects of
  \<^verbatim>\<open>this.extend (this.orders[id], openOrdersIndexedById[id])\<close> have every key of an order,
  so the result is the second. The ids are keys of \<^verbatim>\<open>this.orders\<close>: the cases \<open>None\<close> of
  the lookups in \<open>orders\<close> do not arise.
\<close>

fun fetchOrders_loop ::
  "orders \<Rightarrow> market option \<Rightarrow> string option \<Rightarrow> string list \<Rightarrow> orders \<Rightarrow> order list
   \<Rightarrow> orders \<times> order list" where
  "fetchOrders_loop openOrdersIndexedById market symbol [] orders result = (orders, result)"
| "fetchOrders_loop openOrdersIndexedById market symbol (k # ids) orders result =
     (let orders' =
            (case map_of openOrdersIndexedById k of
               Some openOrder \<Rightarrow>
                 (case map_of orders k of
                    Some cached \<Rightarrow> AList.update k openOrder orders
                  | None \<Rightarrow> orders)
             | None \<Rightarrow>
                 (case map_of orders k of
                    Some cached \<Rightarrow> AList.update k (close_if_open cached) orders
                  | None \<Rightarrow> orders));
          result' =
            (case map_of orders' k of
               Some order \<Rightarrow>
                 (if market \<noteq> None
                  then (if order_symbol order = symbol then result @ [order] else result)
                  else result @ [order])
             | None \<Rightarrow> result)
      in fetchOrders_loop openOrdersIndexedById market symbol ids orders' result')"

text \<open>
  \<^verbatim>\<open>fetchOrders (symbol, since, limit, params)\<close>, \<^verbatim>\<open>src/js/poloniex.js\<close> lines 879-939.
  The argument \<open>reply\<close> is what \<^verbatim>\<open>await this.privatePostReturnOpenOrders (...)\<close> yields: a
  response, or an exception (classified by \<open>handleErrors\<close> or raised by the transport).
  The result is what the call returns or throws, together with the cache afterwards.
\<close>

definition fetchOrders ::
  "exchange \<Rightarrow> orders \<Rightarrow> string option \<Rightarrow> int option \<Rightarrow> nat option
   \<Rightarrow> exn + open_orders_response \<Rightarrow> (exn + order list) \<times> orders" where
  "fetchOrders ex orders symbol since limit reply =
     (case (case symbol of None \<Rightarrow> Inr None
                         | Some s \<Rightarrow> map_sum (\<lambda>e. e) Some (market_of ex s)) of
        Inl e \<Rightarrow> (Inl e, orders)
      | Inr market \<Rightarrow>
          (case reply of
             Inl e \<Rightarrow> (Inl e, orders)
           | Inr response \<Rightarrow>
               (case fetchOrders_parse ex market response of
                  Inl e \<Rightarrow> (Inl e, orders)
                | Inr openOrders \<Rightarrow>
                    (let orders1 = upsert orders openOrders;
                         openOrdersIndexedById = indexBy openOrders;
                         cachedOrderIds = map fst orders1
                     in case fetchOrders_loop openOrdersIndexedById market symbol
                               cachedOrderIds orders1 [] of
                          (orders2, result) \<Rightarrow>
                            (Inr (filterBySinceLimit ex result since limit), orders2)))))"

text \<open>
  \<^verbatim>\<open>createOrder (symbol, type, side, amount, price, params)\<close>, \<^verbatim>\<open>src/js/poloniex.js\<close>
  lines 1059-1084. \<open>now\<close> is the value of \<^verbatim>\<open>this.milliseconds ()\<close>; \<open>send side request\<close>
  is \<^verbatim>\<open>await this['privatePost' + this.capitalize (side)] (request)\<close>, a response or an
  exception.
\<close>

record order_request =
  request_currencyPair :: string
  request_rate :: real
  request_amount :: real

definition createOrder ::
  "exchange \<Rightarrow> orders \<Rightarrow> string \<Rightarrow> string \<Rightarrow> string \<Rightarrow> real \<Rightarrow> real option \<Rightarrow> int
   \<Rightarrow> (string \<Rightarrow> order_request \<Rightarrow> exn + raw_order) \<Rightarrow> (exn + order) \<times> orders" where
  "createOrder ex orders symbol type0 side amount price now send =
     (let type = (if type0 = ''market'' then ''limit'' else type0)
      in case market_of ex symbol of
           Inl e \<Rightarrow> (Inl e, orders)
         | Inr market \<Rightarrow>
             (case priceToPrecision ex (Some symbol) price of
                Inl e \<Rightarrow> (Inl e, orders)
              | Inr rate \<Rightarrow>
                  (case amountToPrecision ex (Some symbol) amount of
                     Inl e \<Rightarrow> (Inl e, orders)
                   | Inr amount' \<Rightarrow>
                       (case send side \<lparr> request_currencyPair = market_id market,
                                         request_rate = rate, request_amount = amount' \<rparr> of
                          Inl e \<Rightarrow> (Inl e, orders)
                        | Inr response \<Rightarrow>
                            (let timestamp = now;
                                 extended = response\<lparr>
                                   raw_timestamp := or_else (raw_timestamp response) (Some timestamp),
                                   raw_status := or_else (raw_status response) (Some ''open''),
                                   raw_type := or_else (raw_type response) (Some type),
                                   raw_side := or_else (raw_side response) (Some side),
                                   raw_price := or_else (raw_price response) price,
                                   raw_amount := or_else (raw_amount response) (Some amount) \<rparr>
                             in case parseOrder ex extended (Some market) of
                                  Inl e \<Rightarrow> (Inl e, orders)
                                | Inr order \<Rightarrow>
                                    (Inr order,
                                     AList.update (order_key order) order orders))))))"

text \<open>
  The first lines of \<^verbatim>\<open>createOrder\<close> in both earlier copies of the class,
  \<^verbatim>\<open>src/unnamed/part_000\<close> lines 1033-1036 and 2428-2431: a market order is refused.
\<close>

definition createOrder_earlier_guard :: "string \<Rightarrow> exn + unit" where
  "createOrder_earlier_guard type0 =
     (if type0 = ''market'' then Inl (ExchangeError, ''poloniex allows limit orders only'')
      else Inr ())"

text \<open>
  \<^verbatim>\<open>cancelOrder (id, symbol, params)\<close>, \<^verbatim>\<open>src/js/poloniex.js\<close> lines 1121-1150. \<open>reply\<close>
  is what \<^verbatim>\<open>await this.privatePostCancelOrder (...)\<close> yields. \<^verbatim>\<open>e instanceof CancelPending\<close>
  holds for the exceptions of that class, which has no subclass in the taxonomy.
\<close>

definition mark_canceled :: "string \<Rightarrow> orders \<Rightarrow> orders" where
  "mark_canceled k orders =
     (case map_of orders k of
        Some order \<Rightarrow> AList.update k (order\<lparr> order_status := Some ''canceled'' \<rparr>) orders
      | None \<Rightarrow> orders)"

definition cancelOrder :: "orders \<Rightarrow> string \<Rightarrow> exn + 'r \<Rightarrow> (exn + 'r) \<times> orders" where
  "cancelOrder orders id' reply =
     (case reply of
        Inl e \<Rightarrow>
          (if fst e = CancelPending then (Inl e, mark_canceled id' orders)
           else (Inl e, orders))
      | Inr response \<Rightarrow> (Inr response, mark_canceled id' orders))"

subsection \<open>Balances\<close>

text \<open>An entry of the reply of \<^verbatim>\<open>returnCompleteBalances\<close>, read with \<^verbatim>\<open>safeFloat\<close>.\<close>

record raw_balance =
  balance_available :: "real option"
  balance_onOrders :: "real option"

text \<open>The account of \<^verbatim>\<open>fetchBalance\<close>; \<open>account_total\<close> is its key \<^verbatim>\<open>'total'\<close>.\<close>

record account =
  free :: "real option"
  used :: "real option"
  account_total :: "real option"

text \<open>
  Modelled from the spec: \<^verbatim>\<open>parseBalance\<close> is a method of the base class, which is not
  among the sources. The specification (3) says of a balance that \<open>total = free + used\<close>
  is enforced at construction and not re-derived later: the accounts that
  \<^verbatim>\<open>fetchBalance\<close> has built are returned as they are.
\<close>

definition parseBalance :: "(string \<times> account) list \<Rightarrow> (string \<times> account) list" where
  "parseBalance result = result"

text \<open>
  \<^verbatim>\<open>fetchBalance (params)\<close>, \<^verbatim>\<open>src/js/poloniex.js\<close> lines 284-305, on the reply
  \<open>response\<close> of \<^verbatim>\<open>returnCompleteBalances\<close>; its loop first.
\<close>

fun fetchBalance_loop ::
  "exchange \<Rightarrow> (string \<times> raw_balance) list \<Rightarrow> (string \<times> account) list
   \<Rightarrow> (string \<times> account) list" where
  "fetchBalance_loop ex [] result = result"
| "fetchBalance_loop ex ((currencyId, balance) # rest) result =
     (let code = commonCurrencyCode ex (Some currencyId);
          account0 = \<lparr> free = balance_available balance, used = balance_onOrders balance,
                        account_total = Some 0 \<rparr>;
          account = account0\<lparr> account_total := sum_js (free account0) (used account0) \<rparr>
      in fetchBalance_loop ex rest (AList.update (js_string code) account result))"

definition fetchBalance :: "exchange \<Rightarrow> (string \<times> raw_balance) list \<Rightarrow> (string \<times> account) list" where
  "fetchBalance ex response = parseBalance (fetchBalance_loop ex response [])"

text \<open>
  The wallet types, the keys \<^verbatim>\<open>exchange\<close>, \<^verbatim>\<open>margin\<close> and \<^verbatim>\<open>lending\<close> that
  \<^verbatim>\<open>initSymbol\<close> creates for each asset, and the record under each of them.
\<close>

datatype wallet = Exchange | Margin | Lending

record wallet_balance =
  available :: real
  on_orders :: real
  wallet_total :: real

type_synonym balances = "(string \<times> (wallet \<Rightarrow> wallet_balance)) list"

record loan_offer =
  loan_symbol :: string
  loan_amount :: real

text \<open>\<^verbatim>\<open>initSymbol (symbol, balances)\<close>, \<^verbatim>\<open>src/js/poloniex.js\<close> lines 307-314.\<close>

definition initSymbol :: "string \<Rightarrow> balances \<Rightarrow> balances" where
  "initSymbol symbol balances =
     (if symbol \<in> fst ` set balances then balances
      else AList.update symbol
             (\<lambda>wallet. \<lparr> available = 0, on_orders = 0, wallet_total = 0 \<rparr>) balances)"

text \<open>
  The three accumulation loops of \<^verbatim>\<open>fetchWalletBalance\<close>, \<^verbatim>\<open>src/js/poloniex.js\<close> lines
  319-327, 329-337 and 339-346. The arguments are the replies of
  \<^verbatim>\<open>returnAvailableAccountBalances\<close> (a dictionary from wallet types to dictionaries from
  currency ids to amounts) and of \<^verbatim>\<open>returnCompleteBalances\<close> (the \<^verbatim>\<open>onOrders\<close> amount of
  each currency id), with \<^verbatim>\<open>Number\<close> applied, and the offers that \<^verbatim>\<open>fetchOpenLoans\<close> and
  \<^verbatim>\<open>fetchActiveLoans\<close> return.
\<close>

definition add_available :: "exchange \<Rightarrow> wallet \<Rightarrow> balances \<Rightarrow> string \<times> real \<Rightarrow> balances" where
  "add_available ex wallet balances entry =
     (case entry of (symbol, amount) \<Rightarrow>
        (let currency = js_string (commonCurrencyCode ex (Some symbol));
             balances' = initSymbol currency balances
         in AList.map_entry currency
              (\<lambda>b. b(wallet := (b wallet)\<lparr> available := available (b wallet) + amount \<rparr>))
              balances'))"

definition calc_available ::
  "exchange \<Rightarrow> (wallet \<times> (string \<times> real) list) list \<Rightarrow> balances \<Rightarrow> balances" where
  "calc_available ex available_reply balances =
     foldl (\<lambda>bs (wallet, entries). foldl (add_available ex wallet) bs entries)
       balances available_reply"

definition add_on_orders :: "exchange \<Rightarrow> balances \<Rightarrow> string \<times> real \<Rightarrow> balances" where
  "add_on_orders ex balances entry =
     (case entry of (symbol, onOrders) \<Rightarrow>
        (if onOrders = 0 then balances
         else (let currency = js_string (commonCurrencyCode ex (Some symbol));
                   balances' = initSymbol currency balances
               in AList.map_entry currency
                    (\<lambda>b. b(Exchange := (b Exchange)\<lparr> on_orders := on_orders (b Exchange) + onOrders \<rparr>))
                    balances')))"

definition calc_on_orders :: "exchange \<Rightarrow> (string \<times> real) list \<Rightarrow> balances \<Rightarrow> balances" where
  "calc_on_orders ex openOrdersBalances balances =
     foldl (add_on_orders ex) balances openOrdersBalances"

definition add_loan :: "balances \<Rightarrow> loan_offer \<Rightarrow> balances" where
  "add_loan balances offer =
     (let balances' = initSymbol (loan_symbol offer) balances
      in AList.map_entry (loan_symbol offer)
           (\<lambda>b. b(Lending := (b Lending)\<lparr> on_orders := on_orders (b Lending) + loan_amount offer \<rparr>))
           balances')"

definition calc_loans :: "loan_offer list \<Rightarrow> loan_offer list \<Rightarrow> balances \<Rightarrow> balances" where
  "calc_loans open_loans active_loans balances =
     (let loans = open_loans @ active_loans in foldl add_loan balances loans)"

text \<open>The last loop of \<^verbatim>\<open>fetchWalletBalance\<close>, lines 348-353.\<close>

definition calc_total :: "balances \<Rightarrow> balances" where
  "calc_total balances =
     map (\<lambda>(symbol, b).
            (symbol, \<lambda>wallet. (b wallet)\<lparr> wallet_total :=
                                 available (b wallet) + on_orders (b wallet) \<rparr>))
       balances"

text \<open>\<^verbatim>\<open>fetchWalletBalance ()\<close>, \<^verbatim>\<open>src/js/poloniex.js\<close> lines 316-355.\<close>

definition accumulate ::
  "exchange \<Rightarrow> (wallet \<times> (string \<times> real) list) list \<Rightarrow> (string \<times> real) list
   \<Rightarrow> loan_offer list \<Rightarrow> loan_offer list \<Rightarrow> balances" where
  "accumulate ex available_reply openOrdersBalances open_loans active_loans =
     calc_loans open_loans active_loans
       (calc_on_orders ex openOrdersBalances
          (calc_available ex available_reply []))"

definition fetchWalletBalance ::
  "exchange \<Rightarrow> (wallet \<times> (string \<times> real) list) list \<Rightarrow> (string \<times> real) list
   \<Rightarrow> loan_offer list \<Rightarrow> loan_offer list \<Rightarrow> balances" where
  "fetchWalletBalance ex available_reply openOrdersBalances open_loans active_loans =
     calc_total (accumulate ex available_reply openOrdersBalances open_loans active_loans)"

subsection \<open>A concrete instance for the scenarios\<close>

text \<open>
  The market table of the scenarios of the specification (8), with helpers of the base
  class that keep a number as it is and refuse \<^verbatim>\<open>NaN\<close> and \<^verbatim>\<open>undefined\<close>.
\<close>

definition scenario_market :: market where
  "scenario_market =
     \<lparr> market_id = ''BTC_ETH'', market_symbol = ''ETH/BTC'', base = ''ETH'', quote = ''BTC'' \<rparr>"

definition exact_precision :: "number \<Rightarrow> exn + real" where
  "exact_precision v =
     (case v of Num a \<Rightarrow> Inr a | NaN \<Rightarrow> Inl (ExchangeError, ''not a number''))"

definition scenario_exchange :: exchange where
  "scenario_exchange =
     \<lparr> markets_by_id = [(''BTC_ETH'', scenario_market)],
       market_of = (\<lambda>symbol. if symbol = ''ETH/BTC'' then Inr scenario_market
                     else Inl (ExchangeError, ''poloniex does not have market symbol '' @ symbol)),
       commonCurrencies = poloniex_commonCurrencies,
       priceToPrecision = (\<lambda>symbol price. exact_precision (to_number price)),
       costToPrecision = (\<lambda>symbol cost. exact_precision cost),
       feeToPrecision = (\<lambda>symbol fee. exact_precision fee),
       amountToPrecision = (\<lambda>symbol amount. Inr amount),
       parse8601 = (\<lambda>date. None),
       parseTrades = (\<lambda>trades market. []),
       filterBySinceLimit = (\<lambda>result since limit. result) \<rparr>"

text \<open>The cached order \<^verbatim>\<open>{id:"1", status:"open", amount:10, price:2}\<close> of the scenario.\<close>

definition scenario_order :: order where
  "scenario_order =
     \<lparr> order_id = Some ''1'', order_timestamp = None, order_lastTradeTimestamp = None,
       order_status = Some ''open'', order_symbol = None, order_type = None,
       order_side = None, order_price = 2, order_cost = None, order_amount = Some 10,
       order_filled = None, order_remaining = None, order_trades = None, order_fee = 0 \<rparr>"

text \<open>An entry of the reply of \<^verbatim>\<open>returnOpenOrders\<close> with the order number \<open>n\<close>.\<close>

definition scenario_open_order :: "string \<Rightarrow> raw_order" where
  "scenario_open_order n =
     \<lparr> orderNumber = Some n, raw_timestamp = None, raw_date = Some ''2019-06-07 12:00:00'',
       currencyPair = None, raw_price = None, raw_rate = Some 2, raw_amount = Some 10,
       startingAmount = Some 10, raw_status = None, raw_type = Some ''buy'',
       raw_side = None, resultingTrades = None \<rparr>"

text \<open>
  A transport for \<^verbatim>\<open>createOrder\<close>: the methods \<^verbatim>\<open>privatePostBuy\<close> and \<^verbatim>\<open>privatePostSell\<close>
  exist and answer with an order number and no trades.
\<close>

definition scenario_send :: "string \<Rightarrow> order_request \<Rightarrow> exn + raw_order" where
  "scenario_send side request =
     (if side = ''buy'' \<or> side = ''sell''
      then Inr \<lparr> orderNumber = Some ''31226040'', raw_timestamp = None, raw_date = None,
                 currencyPair = None, raw_price = None, raw_rate = None, raw_amount = None,
                 startingAmount = None, raw_status = None, raw_type = None,
                 raw_side = None, resultingTrades = Some [] \<rparr>
      else Inl (TypeError, ''this[method] is not a function''))"

text \<open>A trade of the pair \<open>pair\<close> as the exchange sends it.\<close>

definition scenario_trade :: "string \<Rightarrow> string \<Rightarrow> real \<Rightarrow> real \<Rightarrow> raw_trade" where
  "scenario_trade pair side amount fee =
     \<lparr> globalTradeID = Some ''394700861'', trade_orderNumber = Some ''31226040'',
       trade_date = Some ''2019-06-07 12:00:00'', trade_currencyPair = Some pair,
       trade_type = Some side, trade_rate = Some 2, trade_total = Some (2 * amount),
       trade_amount = Some amount, trade_fee = Some fee \<rparr>"

section \<open>Properties\<close>

subsection \<open>Error classification\<close>

lemma findBroadlyMatchedKey_first:
  "i < length tbl \<Longrightarrow> sublist (fst (tbl ! i)) message \<Longrightarrow>
   (\<forall>j<i. \<not> sublist (fst (tbl ! j)) message) \<Longrightarrow>
   findBroadlyMatchedKey tbl message = Some (fst (tbl ! i)) \<and>
   map_of tbl (fst (tbl ! i)) = Some (snd (tbl ! i))"
proof (induction tbl arbitrary: i)
  case Nil
  then show ?case by simp
next
  case (Cons p tbl)
  obtain key v where p: "p = (key, v)" by (cases p)
  show ?case
  proof (cases i)
    case 0
    then show ?thesis using Cons.prems p by simp
  next
    case (Suc n)
    have nokey: "\<not> sublist key message"
      using Cons.prems(3) Suc p by (auto dest: spec [of _ 0])
    have n: "n < length tbl" "sublist (fst (tbl ! n)) message"
      using Cons.prems Suc by simp_all
    have "\<forall>j<n. \<not> sublist (fst (tbl ! j)) message"
    proof (intro allI impI)
      fix j assume "j < n"
      then have "Suc j < i" using Suc by simp
      then have "\<not> sublist (fst ((p # tbl) ! Suc j)) message"
        using Cons.prems(3) by blast
      then show "\<not> sublist (fst (tbl ! j)) message" by simp
    qed
    with Cons.IH [OF n] have IH:
      "findBroadlyMatchedKey tbl message = Some (fst (tbl ! n))"
      "map_of tbl (fst (tbl ! n)) = Some (snd (tbl ! n))" by simp_all
    have "fst (tbl ! n) \<noteq> key" using n(2) nokey by auto
    then show ?thesis using IH Suc p nokey by simp
  qed
qed

lemma findBroadlyMatchedKey_none:
  "(\<forall>key \<in> fst ` set tbl. \<not> sublist key message) \<Longrightarrow> findBroadlyMatchedKey tbl message = None"
  by (induction tbl) auto

text \<open>
  C2, as amended. For a response body with an \<^verbatim>\<open>'error'\<close> message: if the message is a key
  of the exact table, \<open>handleErrors\<close> throws exactly the mapped kind; otherwise, the message
  not being a name that every object inherits from \<^verbatim>\<open>Object.prototype\<close>: if some key of
  the broad table is a substring of the message (equal to it or not), it throws the kind
  mapped to the first such key in table order, and if none is, it throws the generic
  \<open>ExchangeError\<close>. Each of these exceptions carries the raw message.
\<close>

theorem handleErrors_classification:
  "(map_of (exact ex) message = Some kind \<longrightarrow>
      handleErrors ex (Some (Some message)) = Inl (kind, message)) \<and>
   (map_of (exact ex) message = None \<and> message \<notin> set object_prototype_names \<and>
      i < length (broad ex) \<and> sublist (fst (broad ex ! i)) message \<and>
      (\<forall>j<i. \<not> sublist (fst (broad ex ! j)) message) \<longrightarrow>
      handleErrors ex (Some (Some message)) = Inl (snd (broad ex ! i), message)) \<and>
   (map_of (exact ex) message = None \<and> message \<notin> set object_prototype_names \<and>
      (\<forall>key \<in> fst ` set (broad ex). \<not> sublist key message) \<longrightarrow>
      handleErrors ex (Some (Some message)) = Inl (ExchangeError, message))"
proof (intro conjI impI)
  assume "map_of (exact ex) message = Some kind"
  then show "handleErrors ex (Some (Some message)) = Inl (kind, message)"
    by (simp add: handleErrors_def)
next
  assume a: "map_of (exact ex) message = None \<and> message \<notin> set object_prototype_names \<and>
      i < length (broad ex) \<and> sublist (fst (broad ex ! i)) message \<and>
      (\<forall>j<i. \<not> sublist (fst (broad ex ! j)) message)"
  then have "findBroadlyMatchedKey (broad ex) message = Some (fst (broad ex ! i)) \<and>
      map_of (broad ex) (fst (broad ex ! i)) = Some (snd (broad ex ! i))"
    using findBroadlyMatchedKey_first [of i "broad ex" message] by blast
  with a show "handleErrors ex (Some (Some message)) = Inl (snd (broad ex ! i), message)"
    by (simp add: handleErrors_def)
next
  assume a: "map_of (exact ex) message = None \<and> message \<notin> set object_prototype_names \<and>
      (\<forall>key \<in> fst ` set (broad ex). \<not> sublist key message)"
  then have "findBroadlyMatchedKey (broad ex) message = None"
    using findBroadlyMatchedKey_none by blast
  with a show "handleErrors ex (Some (Some message)) = Inl (ExchangeError, message)"
    by (simp add: handleErrors_def)
qed

lemma poloniex_exact_permission:
  "map_of (exact poloniex_exceptions) ''Permission denied'' = Some PermissionDenied"
  by (simp add: poloniex_exceptions_def)

lemma poloniex_broad_not_enough:
  "map_of (exact poloniex_exceptions) ''Not enough BTC.'' = None \<and>
   ''Not enough BTC.'' \<notin> set object_prototype_names \<and>
   (2::nat) < length (broad poloniex_exceptions) \<and>
   sublist (fst (broad poloniex_exceptions ! 2)) ''Not enough BTC.'' \<and>
   (\<forall>j<2::nat. \<not> sublist (fst (broad poloniex_exceptions ! j)) ''Not enough BTC.'')"
  by (simp add: poloniex_exceptions_def object_prototype_names_def sublist_code less_Suc_eq
      numeral_2_eq_2)

lemma poloniex_unmapped:
  "map_of (exact poloniex_exceptions) ''Bad request'' = None \<and>
   ''Bad request'' \<notin> set object_prototype_names \<and>
   (\<forall>key \<in> fst ` set (broad poloniex_exceptions). \<not> sublist key ''Bad request'')"
  by (simp add: poloniex_exceptions_def object_prototype_names_def sublist_code)

theorem handleErrors_classification_witness:
  "handleErrors poloniex_exceptions (Some (Some ''Permission denied'')) =
     Inl (PermissionDenied, ''Permission denied'') \<and>
   handleErrors poloniex_exceptions (Some (Some ''Not enough BTC.'')) =
     Inl (InsufficientFunds, ''Not enough BTC.'') \<and>
   handleErrors poloniex_exceptions (Some (Some ''Bad request'')) =
     Inl (ExchangeError, ''Bad request'')"
  using handleErrors_classification
          [of poloniex_exceptions "''Permission denied''" PermissionDenied 0]
        handleErrors_classification
          [of poloniex_exceptions "''Not enough BTC.''" ExchangeError 2]
        handleErrors_classification
          [of poloniex_exceptions "''Bad request''" ExchangeError 0]
        poloniex_exact_permission poloniex_broad_not_enough poloniex_unmapped
  by (simp add: poloniex_exceptions_def)

text \<open>
  What \<open>handleErrors\<close> does with a message that is no key of the exact table and is a name
  inherited from \<^verbatim>\<open>Object.prototype\<close>: the exact branch is taken all the same, and what is
  thrown is not of the taxonomy.
\<close>

lemma handleErrors_inherited_name:
  "map_of (exact ex) message = None \<Longrightarrow> message \<in> set object_prototype_names \<Longrightarrow>
   handleErrors ex (Some (Some message)) =
     (if message = ''constructor'' then Inl (StringObject, message)
      else Inl (TypeError, ''exact[message] is not a constructor''))"
  by (simp add: handleErrors_def)

text \<open>
  C2 as stated sends a message that is not an exact key and that contains no broad key
  other than itself to the generic kind. The message \<^verbatim>\<open>Not enough\<close> is not a key of the
  exact table and is itself the third broad key; the scan finds it and the method throws
  \<open>InsufficientFunds\<close>, not \<open>ExchangeError\<close>. The message \<^verbatim>\<open>toString\<close> is no key of either
  table and contains none; the method throws a \<open>TypeError\<close>, not \<open>ExchangeError\<close>.
\<close>

theorem handleErrors_not_generic_counterexample:
  "map_of (exact poloniex_exceptions) ''Not enough'' = None \<and>
   fst (broad poloniex_exceptions ! 2) = ''Not enough'' \<and>
   handleErrors poloniex_exceptions (Some (Some ''Not enough'')) =
     Inl (InsufficientFunds, ''Not enough'') \<and>
   handleErrors poloniex_exceptions (Some (Some ''Not enough'')) \<noteq>
     Inl (ExchangeError, ''Not enough'') \<and>
   map_of (exact poloniex_exceptions) ''toString'' = None \<and>
   findBroadlyMatchedKey (broad poloniex_exceptions) ''toString'' = None \<and>
   handleErrors poloniex_exceptions (Some (Some ''toString'')) =
     Inl (TypeError, ''exact[message] is not a constructor'') \<and>
   handleErrors poloniex_exceptions (Some (Some ''toString'')) \<noteq>
     Inl (ExchangeError, ''toString'')"
  by (simp add: handleErrors_def poloniex_exceptions_def object_prototype_names_def
      sublist_code)

subsection \<open>The order cache under \<open>fetchOrders\<close>\<close>

lemma parseOrder_id_status:
  "parseOrder ex order market = Inr parsed \<Longrightarrow>
   order_id parsed = orderNumber order \<and> order_status parsed = parseOrderStatus (raw_status order)"
  by (auto simp: parseOrder_def Let_def split: sum.splits prod.splits)

lemma parseOrderStatus_open: "parseOrderStatus (Some ''open'') = Some ''open''"
  by (simp add: parseOrderStatus_def)

lemma parseOpenOrders_shape:
  "parseOpenOrders ex raws market acc = Inr os \<Longrightarrow>
   \<exists>new. os = acc @ new \<and> map order_id new = map orderNumber raws \<and>
         (\<forall>openOrder \<in> set new. order_status openOrder = Some ''open'')"
proof (induction raws arbitrary: acc)
  case Nil
  then show ?case by simp
next
  case (Cons r raws)
  let ?ext = "r\<lparr> raw_status := Some ''open'', raw_type := Some ''limit'',
                   raw_side := raw_type r, raw_price := raw_rate r \<rparr>"
  from Cons.prems obtain parsed where p: "parseOrder ex ?ext market = Inr parsed"
    and rest: "parseOpenOrders ex raws market (acc @ [parsed]) = Inr os"
    by (auto simp: Let_def split: sum.splits)
  from parseOrder_id_status [OF p] have ps: "order_id parsed = orderNumber r"
    "order_status parsed = Some ''open''" by (simp_all add: parseOrderStatus_open)
  from Cons.IH [OF rest] obtain new where new: "os = (acc @ [parsed]) @ new"
    "map order_id new = map orderNumber raws"
    "\<forall>openOrder \<in> set new. order_status openOrder = Some ''open''" by blast
  show ?case
    by (rule exI [of _ "parsed # new"]) (use new ps in simp)
qed

lemma parseAllOpenOrders_shape:
  "parseAllOpenOrders ex d acc = Inr os \<Longrightarrow>
   \<exists>new. os = acc @ new \<and> map order_id new = map orderNumber (concat (map snd d)) \<and>
         (\<forall>openOrder \<in> set new. order_status openOrder = Some ''open'')"
proof (induction d arbitrary: acc)
  case Nil
  then show ?case by simp
next
  case (Cons p d)
  obtain marketId raws where p: "p = (marketId, raws)" by (cases p)
  from Cons.prems p obtain mid where
    first: "parseOpenOrders ex raws (map_of (markets_by_id ex) marketId) acc = Inr mid"
    and rest: "parseAllOpenOrders ex d mid = Inr os"
    by (auto simp: Let_def split: sum.splits)
  from parseOpenOrders_shape [OF first] obtain new1 where new1: "mid = acc @ new1"
    "map order_id new1 = map orderNumber raws"
    "\<forall>openOrder \<in> set new1. order_status openOrder = Some ''open''" by blast
  from Cons.IH [OF rest] obtain new2 where new2: "os = mid @ new2"
    "map order_id new2 = map orderNumber (concat (map snd d))"
    "\<forall>openOrder \<in> set new2. order_status openOrder = Some ''open''" by blast
  show ?case
    by (rule exI [of _ "new1 @ new2"]) (use new1 new2 p in auto)
qed

lemma fetchOrders_parse_shape:
  assumes "fetchOrders_parse ex market response = Inr os"
  shows "map order_key os = response_ids response"
    and "\<forall>openOrder \<in> set os. order_status openOrder = Some ''open''"
proof -
  have "map order_id os = map orderNumber (response_orders response) \<and>
        (\<forall>openOrder \<in> set os. order_status openOrder = Some ''open'')"
  proof (cases response)
    case (PairOrders raws)
    show ?thesis
    proof (cases market)
      case None
      with assms PairOrders show ?thesis
        by (cases raws) (simp_all add: fetchOrders_parse_def)
    next
      case (Some m)
      with assms PairOrders have "parseOpenOrders ex raws (Some m) [] = Inr os"
        by (simp add: fetchOrders_parse_def)
      from parseOpenOrders_shape [OF this] PairOrders show ?thesis by auto
    qed
  next
    case (AllOrders d)
    show ?thesis
    proof (cases market)
      case None
      with assms AllOrders have "parseAllOpenOrders ex d [] = Inr os"
        by (simp add: fetchOrders_parse_def)
      from parseAllOpenOrders_shape [OF this] AllOrders show ?thesis by auto
    next
      case (Some m)
      with assms AllOrders show ?thesis by (simp add: fetchOrders_parse_def)
    qed
  qed
  then have ids: "map order_id os = map orderNumber (response_orders response)"
    and st: "\<forall>openOrder \<in> set os. order_status openOrder = Some ''open''" by simp_all
  from st show "\<forall>openOrder \<in> set os. order_status openOrder = Some ''open''" .
  have "map order_key os = map js_string (map order_id os)"
    by (simp add: order_key_def)
  also have "\<dots> = response_ids response"
    by (simp add: ids response_ids_def)
  finally show "map order_key os = response_ids response" .
qed

lemma upsert_Cons:
  "upsert al (openOrder # os) = upsert (AList.update (order_key openOrder) openOrder al) os"
  by (simp add: upsert_def)

lemma map_of_upsert:
  "map_of (upsert al os) = map_of al ++ map_of (rev (map (\<lambda>openOrder. (order_key openOrder, openOrder)) os))"
proof (induction os arbitrary: al)
  case Nil
  then show ?case by (simp add: upsert_def)
next
  case (Cons openOrder os)
  show ?case
    by (simp add: upsert_Cons Cons.IH AList.update_conv' map_add_upd_left fun_eq_iff map_add_def
        split: option.splits)
qed

lemma map_of_indexBy_dom: "dom (map_of (indexBy os)) = set (map order_key os)"
  by (simp add: indexBy_def map_of_upsert dom_map_of_conv_image_fst image_image)

lemma map_of_upsert_indexBy:
  "map_of (upsert al os) k =
     (case map_of (indexBy os) k of Some openOrder \<Rightarrow> Some openOrder | None \<Rightarrow> map_of al k)"
  by (simp add: indexBy_def map_of_upsert map_add_def split: option.splits)

lemma keys_upsert_subset: "set (map fst al) \<subseteq> set (map fst (upsert al os))"
proof (induction os arbitrary: al)
  case Nil
  then show ?case by (simp add: upsert_def)
next
  case (Cons openOrder os)
  have "set (map fst al) \<subseteq> set (map fst (AList.update (order_key openOrder) openOrder al))"
    by (auto simp: AList.update_keys)
  with Cons.IH [of "AList.update (order_key openOrder) openOrder al"] show ?case
    unfolding upsert_Cons by blast
qed

lemma keys_upsert_same:
  "set (map order_key os) \<subseteq> set (map fst al) \<Longrightarrow> map fst (upsert al os) = map fst al"
proof (induction os arbitrary: al)
  case Nil
  then show ?case by (simp add: upsert_def)
next
  case (Cons openOrder os)
  from Cons.prems have k: "map fst (AList.update (order_key openOrder) openOrder al) = map fst al"
    by (simp add: AList.update_keys)
  with Cons.prems Cons.IH [of "AList.update (order_key openOrder) openOrder al"] show ?case
    by (simp add: upsert_Cons)
qed

lemma distinct_upsert: "distinct (map fst al) \<Longrightarrow> distinct (map fst (upsert al os))"
  by (induction os arbitrary: al) (simp_all add: upsert_def AList.distinct_update)

lemma close_if_open_idem: "close_if_open (close_if_open cached) = close_if_open cached"
  by (simp add: close_if_open_def Let_def split: option.splits)

lemma close_if_open_terminal:
  "order_status cached \<noteq> Some ''open'' \<Longrightarrow> close_if_open cached = cached"
  by (simp add: close_if_open_def)

lemma close_if_open_open:
  "order_status cached = Some ''open'' \<Longrightarrow>
   close_if_open cached =
     cached\<lparr> order_status := Some ''closed'',
             order_cost := map_option (\<lambda>filled. filled * order_price cached) (order_amount cached),
             order_filled := order_amount cached, order_remaining := Some 0 \<rparr>"
  by (cases "order_amount cached") (simp_all add: close_if_open_def Let_def)

lemma fetchOrders_loop_keys:
  "map fst (fst (fetchOrders_loop ix market symbol ids orders result)) = map fst orders"
proof (induction ids arbitrary: orders result)
  case Nil
  then show ?case by simp
next
  case (Cons k ids)
  have in_keys: "\<And>v. map_of orders k = Some v \<Longrightarrow> k \<in> fst ` set orders"
    by (metis map_of_eq_None_iff option.distinct(1))
  show ?case
    by (auto simp: Let_def Cons.IH AList.update_keys dest: in_keys split: option.splits)
qed

lemma fetchOrders_loop_map_of:
  "map_of (fst (fetchOrders_loop ix market symbol ids orders result)) k =
     (if k \<in> set ids
      then map_option
             (\<lambda>cached. case map_of ix k of Some openOrder \<Rightarrow> openOrder
                                         | None \<Rightarrow> close_if_open cached)
             (map_of orders k)
      else map_of orders k)"
proof (induction ids arbitrary: orders result)
  case Nil
  then show ?case by simp
next
  case (Cons a ids)
  show ?case
    by (simp add: Let_def Cons.IH AList.update_conv' close_if_open_idem split: option.splits)
qed

lemma alist_eqI:
  "distinct (map fst a) \<Longrightarrow> map fst a = map fst b \<Longrightarrow> map_of a = map_of b \<Longrightarrow> a = b"
proof (induction a arbitrary: b)
  case Nil
  then show ?case by simp
next
  case (Cons p a)
  from Cons.prems(2) obtain q b' where b: "b = q # b'" "fst p = fst q" "map fst a = map fst b'"
    by (cases b) auto
  from fun_cong [OF Cons.prems(3), of "fst p"] b(1)
  have "map_of (p # a) (fst p) = map_of (q # b') (fst p)" by simp
  then have pq: "p = q" using b(2) by (cases p, cases q) (simp split: if_splits)
  have notin: "fst p \<notin> fst ` set a" "fst p \<notin> fst ` set b'"
    using Cons.prems(1) b(3) by (auto simp flip: set_map)
  have "map_of a x = map_of b' x" for x
  proof (cases "x = fst p")
    case True
    have "map_of a (fst p) = None" "map_of b' (fst p) = None"
      using notin by (simp_all add: map_of_eq_None_iff)
    with True show ?thesis by simp
  next
    case False
    from fun_cong [OF Cons.prems(3), of x] have "map_of (p # a) x = map_of b x" .
    with False b pq show ?thesis by (cases q) (simp split: if_splits)
  qed
  then have "map_of a = map_of b'" by (rule ext)
  with Cons.IH [of b'] Cons.prems(1) b(3) have "a = b'" by simp
  with pq b show ?case by simp
qed

lemma reconciled_map_of:
  "map_of (fst (fetchOrders_loop (indexBy os) market symbol (map fst (upsert orders os))
                  (upsert orders os) result)) k =
     (case map_of (indexBy os) k of
        Some openOrder \<Rightarrow> Some openOrder
      | None \<Rightarrow> map_option close_if_open (map_of orders k))"
proof (cases "k \<in> set (map fst (upsert orders os))")
  case True
  then show ?thesis
    by (simp add: fetchOrders_loop_map_of map_of_upsert_indexBy split: option.splits)
next
  case False
  then have none: "map_of (upsert orders os) k = None"
    by (simp add: map_of_eq_None_iff)
  then have "map_of (indexBy os) k = None" "map_of orders k = None"
    by (simp_all add: map_of_upsert_indexBy split: option.splits)
  with False none show ?thesis
    by (simp add: fetchOrders_loop_map_of)
qed

lemma fetchOrders_unfold:
  "fetchOrders ex orders symbol since limit reply =
     (case (case symbol of None \<Rightarrow> Inr None
                         | Some s \<Rightarrow> map_sum (\<lambda>e. e) Some (market_of ex s)) of
        Inl e \<Rightarrow> (Inl e, orders)
      | Inr market \<Rightarrow>
          (case reply of
             Inl e \<Rightarrow> (Inl e, orders)
           | Inr response \<Rightarrow>
               (case fetchOrders_parse ex market response of
                  Inl e \<Rightarrow> (Inl e, orders)
                | Inr os \<Rightarrow>
                    (Inr (filterBySinceLimit ex
                            (snd (fetchOrders_loop (indexBy os) market symbol
                                    (map fst (upsert orders os)) (upsert orders os) []))
                            since limit),
                     fst (fetchOrders_loop (indexBy os) market symbol
                            (map fst (upsert orders os)) (upsert orders os) [])))))"
  by (simp add: fetchOrders_def Let_def split: sum.splits option.splits prod.splits)

lemma fetchOrders_cache:
  "snd (fetchOrders ex orders symbol since limit reply) = orders \<or>
   (\<exists>response market os.
      reply = Inr response \<and> fetchOrders_parse ex market response = Inr os \<and>
      snd (fetchOrders ex orders symbol since limit reply) =
        fst (fetchOrders_loop (indexBy os) market symbol (map fst (upsert orders os))
               (upsert orders os) []))"
  unfolding fetchOrders_unfold by (auto split: sum.splits)

lemma fetchOrders_returns:
  "fetchOrders ex orders symbol since limit reply = (Inr result, orders') \<Longrightarrow>
   \<exists>response market os.
      reply = Inr response \<and> fetchOrders_parse ex market response = Inr os \<and>
      orders' = fst (fetchOrders_loop (indexBy os) market symbol (map fst (upsert orders os))
                       (upsert orders os) [])"
  unfolding fetchOrders_unfold by (auto split: sum.splits)

lemma keys_upsert_contains: "set (map order_key os) \<subseteq> set (map fst (upsert al os))"
proof -
  have "dom (map_of (upsert al os)) = dom (map_of al) \<union> set (map order_key os)"
    by (auto simp: map_of_upsert dom_map_of_conv_image_fst image_image)
  then show ?thesis by (auto simp: dom_map_of_conv_image_fst)
qed

lemma map_of_indexBy_Some:
  "map_of (indexBy os) k = Some openOrder \<Longrightarrow> openOrder \<in> set os \<and> order_key openOrder = k"
  by (auto simp: indexBy_def map_of_upsert dest!: map_of_SomeD)

lemma reconcile_idem:
  assumes "distinct (map fst orders)"
    and c1_def: "c1 = fst (fetchOrders_loop (indexBy os) market symbol (map fst (upsert orders os))
                       (upsert orders os) result)"
  shows "fst (fetchOrders_loop (indexBy os) market' symbol' (map fst (upsert c1 os))
                (upsert c1 os) result') = c1"
proof -
  have keys1: "map fst c1 = map fst (upsert orders os)"
    by (simp add: c1_def fetchOrders_loop_keys)
  have dist1: "distinct (map fst c1)"
    using assms(1) by (simp add: keys1 distinct_upsert)
  have map1: "map_of c1 k =
      (case map_of (indexBy os) k of Some openOrder \<Rightarrow> Some openOrder
                                   | None \<Rightarrow> map_option close_if_open (map_of orders k))" for k
    unfolding c1_def by (rule reconciled_map_of)
  have "map fst (upsert c1 os) = map fst c1"
    by (rule keys_upsert_same) (simp only: keys1 keys_upsert_contains)
  moreover have "map_of (upsert c1 os) = map_of c1"
    by (rule ext) (simp add: map_of_upsert_indexBy map1 split: option.splits)
  ultimately have up: "upsert c1 os = c1"
    using alist_eqI [OF dist1, of "upsert c1 os"] by simp
  let ?c2 = "fst (fetchOrders_loop (indexBy os) market' symbol' (map fst (upsert c1 os))
                (upsert c1 os) result')"
  have "map fst ?c2 = map fst c1"
    by (simp add: fetchOrders_loop_keys up)
  moreover have "map_of ?c2 = map_of c1"
  proof (rule ext)
    fix k
    have "map_of ?c2 k =
      (case map_of (indexBy os) k of Some openOrder \<Rightarrow> Some openOrder
                                   | None \<Rightarrow> map_option close_if_open (map_of c1 k))"
      by (rule reconciled_map_of)
    also have "\<dots> = map_of c1 k"
      by (simp add: map1 option.map_comp comp_def close_if_open_idem split: option.splits)
    finally show "map_of ?c2 k = map_of c1 k" .
  qed
  ultimately show ?thesis
    using alist_eqI [OF dist1, of ?c2] by simp
qed

text \<open>
  C5. For every starting cache (an association list with distinct keys, as the keys of an
  object are), two calls of \<open>fetchOrders\<close> in succession that receive the same reply
  leave, after the second call, exactly the cache that the first call left: the same
  keys in the same order, no entry added twice, and the same order under each key. This
  holds whether the calls return or throw.
\<close>

theorem fetchOrders_idempotent:
  assumes "distinct (map fst orders)"
  shows "snd (fetchOrders ex (snd (fetchOrders ex orders symbol since limit reply))
                symbol since limit reply) =
         snd (fetchOrders ex orders symbol since limit reply)"
  unfolding fetchOrders_unfold
  by (simp add: reconcile_idem [OF assms refl] split: sum.splits option.splits)

lemma parseOpenOrders_sources:
  "parseOpenOrders ex raws market acc = Inr os \<Longrightarrow> openOrder \<in> set os \<Longrightarrow>
   openOrder \<in> set acc \<or>
   (\<exists>raw \<in> set raws.
      parseOrder ex (raw\<lparr> raw_status := Some ''open'', raw_type := Some ''limit'',
                          raw_side := raw_type raw, raw_price := raw_rate raw \<rparr>) market =
        Inr openOrder)"
proof (induction raws arbitrary: acc)
  case Nil
  then show ?case by simp
next
  case (Cons r raws)
  let ?ext = "r\<lparr> raw_status := Some ''open'', raw_type := Some ''limit'',
                   raw_side := raw_type r, raw_price := raw_rate r \<rparr>"
  from Cons.prems(1) obtain parsed where p: "parseOrder ex ?ext market = Inr parsed"
    and rest: "parseOpenOrders ex raws market (acc @ [parsed]) = Inr os"
    by (auto simp: Let_def split: sum.splits)
  from Cons.IH [OF rest Cons.prems(2)] p show ?case by auto
qed

lemma parseAllOpenOrders_sources:
  "parseAllOpenOrders ex d acc = Inr os \<Longrightarrow> openOrder \<in> set os \<Longrightarrow>
   openOrder \<in> set acc \<or>
   (\<exists>raw m. raw \<in> set (concat (map snd d)) \<and>
      parseOrder ex (raw\<lparr> raw_status := Some ''open'', raw_type := Some ''limit'',
                          raw_side := raw_type raw, raw_price := raw_rate raw \<rparr>) m =
        Inr openOrder)"
proof (induction d arbitrary: acc)
  case Nil
  then show ?case by simp
next
  case (Cons p d)
  obtain marketId raws where p: "p = (marketId, raws)" by (cases p)
  from Cons.prems(1) p obtain mid where
    first: "parseOpenOrders ex raws (map_of (markets_by_id ex) marketId) acc = Inr mid"
    and rest: "parseAllOpenOrders ex d mid = Inr os"
    by (auto simp: Let_def split: sum.splits)
  from Cons.IH [OF rest Cons.prems(2)] show ?case
  proof
    assume "openOrder \<in> set mid"
    from parseOpenOrders_sources [OF first this] p show ?thesis by auto
  next
    assume "\<exists>raw m. raw \<in> set (concat (map snd d)) \<and>
      parseOrder ex (raw\<lparr> raw_status := Some ''open'', raw_type := Some ''limit'',
                          raw_side := raw_type raw, raw_price := raw_rate raw \<rparr>) m =
        Inr openOrder"
    then show ?thesis by auto
  qed
qed

lemma fetchOrders_parse_sources:
  assumes "fetchOrders_parse ex market response = Inr os" and "openOrder \<in> set os"
  shows "\<exists>raw m. raw \<in> set (response_orders response) \<and>
      parseOrder ex (raw\<lparr> raw_status := Some ''open'', raw_type := Some ''limit'',
                          raw_side := raw_type raw, raw_price := raw_rate raw \<rparr>) m =
        Inr openOrder"
proof (cases response)
  case (PairOrders raws)
  show ?thesis
  proof (cases market)
    case None
    with assms PairOrders show ?thesis
      by (cases raws) (simp_all add: fetchOrders_parse_def)
  next
    case (Some m)
    with assms(1) PairOrders have "parseOpenOrders ex raws (Some m) [] = Inr os"
      by (simp add: fetchOrders_parse_def)
    from parseOpenOrders_sources [OF this assms(2)] PairOrders show ?thesis by auto
  qed
next
  case (AllOrders d)
  show ?thesis
  proof (cases market)
    case None
    with assms(1) AllOrders have "parseAllOpenOrders ex d [] = Inr os"
      by (simp add: fetchOrders_parse_def)
    from parseAllOpenOrders_sources [OF this assms(2)] AllOrders show ?thesis by auto
  next
    case (Some m)
    with assms(1) AllOrders show ?thesis by (simp add: fetchOrders_parse_def)
  qed
qed

lemma map_of_rev_keyed:
  "map_of (rev (map (\<lambda>x. (f x, x)) xs)) k =
     (if filter (\<lambda>x. f x = k) xs = [] then None
      else Some (last (filter (\<lambda>x. f x = k) xs)))"
proof (induction xs rule: rev_induct)
  case Nil
  then show ?case by simp
next
  case (snoc x xs)
  then show ?case by simp
qed

lemma map_of_indexBy_last:
  "map_of (indexBy os) k = Some openOrder \<Longrightarrow>
   openOrder = last (filter (\<lambda>openOrder. order_key openOrder = k) os)"
  by (simp add: indexBy_def map_of_upsert map_of_rev_keyed split: if_splits)

lemma fetchOrders_throws_keeps:
  "fst (fetchOrders ex orders symbol since limit reply) = Inl e \<Longrightarrow>
   snd (fetchOrders ex orders symbol since limit reply) = orders"
  unfolding fetchOrders_unfold by (auto split: sum.splits)

lemma fetchOrders_returns_market:
  assumes "fetchOrders ex orders symbol since limit reply = (Inr result, orders')"
  shows "\<exists>response market os.
      reply = Inr response \<and>
      (case symbol of None \<Rightarrow> market = None
                    | Some s \<Rightarrow> (\<exists>m. market_of ex s = Inr m \<and> market = Some m)) \<and>
      fetchOrders_parse ex market response = Inr os \<and>
      orders' = fst (fetchOrders_loop (indexBy os) market symbol (map fst (upsert orders os))
                       (upsert orders os) [])"
proof (cases symbol)
  case None
  with assms show ?thesis
    unfolding fetchOrders_unfold by (auto split: sum.splits)
next
  case (Some s)
  show ?thesis
  proof (cases "market_of ex s")
    case (Inl e)
    with assms Some show ?thesis unfolding fetchOrders_unfold by simp
  next
    case (Inr m)
    with assms Some show ?thesis
      unfolding fetchOrders_unfold by (auto split: sum.splits)
  qed
qed

text \<open>
  C1, as amended. For every order in the cache whose status is \<^verbatim>\<open>closed\<close> or
  \<^verbatim>\<open>canceled\<close>: a call of \<open>fetchOrders\<close> whose reply does not list the id of the order,
  or that throws, leaves the cache entry as it was (a call that throws leaves the whole
  cache). A call that returns and whose reply lists the id replaces the entry by the
  freshly parsed order: the last of the parsed orders of that id, which is what
  \<open>parseOrder\<close> makes of an order of the reply with that order number, extended as
  \<^verbatim>\<open>parseOpenOrders\<close> extends it, and whose status is \<^verbatim>\<open>open\<close>.
\<close>

theorem fetchOrders_terminal_status:
  assumes "map_of orders k = Some cached"
    and "order_status cached = Some ''closed'' \<or> order_status cached = Some ''canceled''"
  shows "((\<forall>response. reply = Inr response \<longrightarrow> k \<notin> set (response_ids response)) \<longrightarrow>
            map_of (snd (fetchOrders ex orders symbol since limit reply)) k = Some cached) \<and>
         (fst (fetchOrders ex orders symbol since limit reply) = Inl e \<longrightarrow>
            snd (fetchOrders ex orders symbol since limit reply) = orders \<and>
            map_of (snd (fetchOrders ex orders symbol since limit reply)) k = Some cached) \<and>
         (reply = Inr response \<and> k \<in> set (response_ids response) \<and>
            fst (fetchOrders ex orders symbol since limit reply) = Inr result \<longrightarrow>
            (\<exists>market os openOrder raw m.
               (case symbol of None \<Rightarrow> market = None
                             | Some s \<Rightarrow> (\<exists>m'. market_of ex s = Inr m' \<and> market = Some m')) \<and>
               fetchOrders_parse ex market response = Inr os \<and>
               openOrder = last (filter (\<lambda>openOrder. order_key openOrder = k) os) \<and>
               openOrder \<in> set os \<and> order_key openOrder = k \<and>
               raw \<in> set (response_orders response) \<and> js_string (orderNumber raw) = k \<and>
               parseOrder ex (raw\<lparr> raw_status := Some ''open'', raw_type := Some ''limit'',
                                   raw_side := raw_type raw, raw_price := raw_rate raw \<rparr>) m =
                 Inr openOrder \<and>
               order_status openOrder = Some ''open'' \<and>
               map_of (snd (fetchOrders ex orders symbol since limit reply)) k =
                 Some openOrder))"
proof (intro conjI impI)
  assume absent: "\<forall>response. reply = Inr response \<longrightarrow> k \<notin> set (response_ids response)"
  from fetchOrders_cache [of ex orders symbol since limit reply]
  show "map_of (snd (fetchOrders ex orders symbol since limit reply)) k = Some cached"
  proof (elim disjE exE conjE)
    assume "snd (fetchOrders ex orders symbol since limit reply) = orders"
    with assms(1) show ?thesis by simp
  next
    fix response market os
    assume r: "reply = Inr response" and p: "fetchOrders_parse ex market response = Inr os"
      and c: "snd (fetchOrders ex orders symbol since limit reply) =
        fst (fetchOrders_loop (indexBy os) market symbol (map fst (upsert orders os))
               (upsert orders os) [])"
    from absent r fetchOrders_parse_shape(1) [OF p] have "k \<notin> dom (map_of (indexBy os))"
      by (simp add: map_of_indexBy_dom)
    then have "map_of (indexBy os) k = None" by blast
    moreover have "close_if_open cached = cached"
      using assms(2) by (auto intro: close_if_open_terminal)
    ultimately show ?thesis using assms(1) by (simp add: c reconciled_map_of)
  qed
next
  assume "fst (fetchOrders ex orders symbol since limit reply) = Inl e"
  then show "snd (fetchOrders ex orders symbol since limit reply) = orders"
    by (rule fetchOrders_throws_keeps)
next
  assume "fst (fetchOrders ex orders symbol since limit reply) = Inl e"
  then have "snd (fetchOrders ex orders symbol since limit reply) = orders"
    by (rule fetchOrders_throws_keeps)
  with assms(1) show "map_of (snd (fetchOrders ex orders symbol since limit reply)) k = Some cached"
    by simp
next
  assume a: "reply = Inr response \<and> k \<in> set (response_ids response) \<and>
            fst (fetchOrders ex orders symbol since limit reply) = Inr result"
  then have "fetchOrders ex orders symbol since limit reply =
      (Inr result, snd (fetchOrders ex orders symbol since limit reply))"
    by (metis prod.collapse)
  from fetchOrders_returns_market [OF this] a obtain market os where
    mk: "case symbol of None \<Rightarrow> market = None
                     | Some s \<Rightarrow> (\<exists>m'. market_of ex s = Inr m' \<and> market = Some m')"
    and p: "fetchOrders_parse ex market response = Inr os"
    and c: "snd (fetchOrders ex orders symbol since limit reply) =
        fst (fetchOrders_loop (indexBy os) market symbol (map fst (upsert orders os))
               (upsert orders os) [])" by auto
  from a fetchOrders_parse_shape(1) [OF p] have "k \<in> dom (map_of (indexBy os))"
    by (simp add: map_of_indexBy_dom)
  then obtain openOrder where ix: "map_of (indexBy os) k = Some openOrder" by blast
  from map_of_indexBy_Some [OF ix] have mem: "openOrder \<in> set os" and key: "order_key openOrder = k"
    by simp_all
  from mem fetchOrders_parse_shape(2) [OF p] have st: "order_status openOrder = Some ''open''"
    by blast
  from fetchOrders_parse_sources [OF p mem] obtain raw m where
    raw: "raw \<in> set (response_orders response)"
    and po: "parseOrder ex (raw\<lparr> raw_status := Some ''open'', raw_type := Some ''limit'',
                                raw_side := raw_type raw, raw_price := raw_rate raw \<rparr>) m =
               Inr openOrder" by blast
  from parseOrder_id_status [OF po] key have num: "js_string (orderNumber raw) = k"
    by (simp add: order_key_def)
  have entry: "map_of (snd (fetchOrders ex orders symbol since limit reply)) k = Some openOrder"
    using ix by (simp add: c reconciled_map_of)
  have lst: "openOrder = last (filter (\<lambda>openOrder. order_key openOrder = k) os)"
    by (rule map_of_indexBy_last [OF ix])
  show "\<exists>market os openOrder raw m.
               (case symbol of None \<Rightarrow> market = None
                             | Some s \<Rightarrow> (\<exists>m'. market_of ex s = Inr m' \<and> market = Some m')) \<and>
               fetchOrders_parse ex market response = Inr os \<and>
               openOrder = last (filter (\<lambda>openOrder. order_key openOrder = k) os) \<and>
               openOrder \<in> set os \<and> order_key openOrder = k \<and>
               raw \<in> set (response_orders response) \<and> js_string (orderNumber raw) = k \<and>
               parseOrder ex (raw\<lparr> raw_status := Some ''open'', raw_type := Some ''limit'',
                                   raw_side := raw_type raw, raw_price := raw_rate raw \<rparr>) m =
                 Inr openOrder \<and>
               order_status openOrder = Some ''open'' \<and>
               map_of (snd (fetchOrders ex orders symbol since limit reply)) k =
                 Some openOrder"
    apply (rule exI [of _ market], rule exI [of _ os], rule exI [of _ openOrder],
           rule exI [of _ raw], rule exI [of _ m])
    apply (intro conjI)
             apply (rule mk)
            apply (rule p)
           apply (rule lst)
          apply (rule mem)
         apply (rule key)
        apply (rule raw)
       apply (rule num)
      apply (rule po)
     apply (rule st)
    apply (rule entry)
    done
qed

text \<open>
  C3. When a call of \<open>fetchOrders\<close> returns, every cached order with status \<^verbatim>\<open>open\<close>
  whose id the reply does not list is closed: its status becomes \<^verbatim>\<open>closed\<close>,
  \<open>filled\<close> becomes \<open>amount\<close>, \<open>remaining\<close> becomes \<open>0\<close> and \<open>cost\<close> becomes
  \<open>filled * price\<close> (it stays \<^verbatim>\<open>undefined\<close> when \<open>amount\<close> is). The cost is set whether
  or not it was known before, and so in particular when it was not. The witness below is
  the scenario of the specification: the order \<^verbatim>\<open>{id:"1", status:"open", amount:10, price:2}\<close>
  becomes \<^verbatim>\<open>{id:"1", status:"closed", filled:10, remaining:0, cost:20}\<close>.
\<close>

theorem fetchOrders_closes_absent:
  assumes "fetchOrders ex orders symbol since limit (Inr response) = (Inr result, orders')"
    and "map_of orders k = Some cached"
    and "order_status cached = Some ''open''"
    and "k \<notin> set (response_ids response)"
  shows "map_of orders' k =
           Some (cached\<lparr> order_status := Some ''closed'',
                         order_cost := map_option (\<lambda>filled. filled * order_price cached)
                                         (order_amount cached),
                         order_filled := order_amount cached,
                         order_remaining := Some 0 \<rparr>)"
proof -
  from fetchOrders_returns [OF assms(1)] obtain market os where
    p: "fetchOrders_parse ex market response = Inr os"
    and c: "orders' = fst (fetchOrders_loop (indexBy os) market symbol
                             (map fst (upsert orders os)) (upsert orders os) [])" by auto
  from assms(4) fetchOrders_parse_shape(1) [OF p] have "k \<notin> dom (map_of (indexBy os))"
    by (simp add: map_of_indexBy_dom)
  then have "map_of (indexBy os) k = None" by blast
  then show ?thesis
    using assms(2) close_if_open_open [OF assms(3)] by (simp add: c reconciled_map_of)
qed

lemmas scenario_defs =
  parseOrder_def parseOrderStatus_def order_key_def js_string_def scenario_exchange_def
  scenario_market_def or_else_def to_number_def exact_precision_def

lemmas scenario_cache_defs =
  fetchOrders_def fetchOrders_parse_def upsert_def indexBy_def close_if_open_def
  scenario_order_def scenario_open_order_def response_ids_def

lemma scenario_run:
  "fetchOrders scenario_exchange [(''1'', scenario_order)] None None None
     (Inr (AllOrders [(''BTC_ETH'', [scenario_open_order ''2''])])) =
   (Inr [scenario_order\<lparr> order_status := Some ''closed'', order_cost := Some 20,
                          order_filled := Some 10, order_remaining := Some 0 \<rparr>,
         \<lparr> order_id = Some ''2'', order_timestamp = None, order_lastTradeTimestamp = None,
           order_status = Some ''open'', order_symbol = Some ''ETH/BTC'',
           order_type = Some ''limit'', order_side = Some ''buy'', order_price = 2,
           order_cost = Some 0, order_amount = Some 10, order_filled = Some 0,
           order_remaining = Some 10, order_trades = None, order_fee = 0 \<rparr>],
    [(''1'', scenario_order\<lparr> order_status := Some ''closed'', order_cost := Some 20,
                          order_filled := Some 10, order_remaining := Some 0 \<rparr>),
     (''2'', \<lparr> order_id = Some ''2'', order_timestamp = None, order_lastTradeTimestamp = None,
           order_status = Some ''open'', order_symbol = Some ''ETH/BTC'',
           order_type = Some ''limit'', order_side = Some ''buy'', order_price = 2,
           order_cost = Some 0, order_amount = Some 10, order_filled = Some 0,
           order_remaining = Some 10, order_trades = None, order_fee = 0 \<rparr>)])"
  by (simp add: scenario_defs scenario_cache_defs Let_def)

theorem fetchOrders_closes_absent_witness:
  "map_of (snd (fetchOrders scenario_exchange [(''1'', scenario_order)] None None None
                  (Inr (AllOrders [(''BTC_ETH'', [scenario_open_order ''2''])])))) ''1'' =
   Some \<lparr> order_id = Some ''1'', order_timestamp = None, order_lastTradeTimestamp = None,
          order_status = Some ''closed'', order_symbol = None, order_type = None,
          order_side = None, order_price = 2, order_cost = Some 20, order_amount = Some 10,
          order_filled = Some 10, order_remaining = Some 0, order_trades = None,
          order_fee = 0 \<rparr>"
proof -
  have absent: "''1'' \<notin> set (response_ids (AllOrders [(''BTC_ETH'', [scenario_open_order ''2''])]))"
    by (simp add: response_ids_def scenario_open_order_def js_string_def)
  have cached: "map_of [(''1'', scenario_order)] ''1'' = Some scenario_order" by simp
  have is_open: "order_status scenario_order = Some ''open''"
    by (simp add: scenario_order_def)
  from fetchOrders_closes_absent [OF scenario_run cached is_open absent]
  show ?thesis unfolding scenario_run snd_conv by (simp add: scenario_order_def)
qed

lemma scenario_canceled_run:
  "fetchOrders scenario_exchange
     [(''1'', scenario_order\<lparr> order_status := Some ''canceled'' \<rparr>)] None None None
     (Inr (AllOrders [(''BTC_ETH'', [scenario_open_order ''1''])])) =
   (Inr [\<lparr> order_id = Some ''1'', order_timestamp = None, order_lastTradeTimestamp = None,
           order_status = Some ''open'', order_symbol = Some ''ETH/BTC'',
           order_type = Some ''limit'', order_side = Some ''buy'', order_price = 2,
           order_cost = Some 0, order_amount = Some 10, order_filled = Some 0,
           order_remaining = Some 10, order_trades = None, order_fee = 0 \<rparr>],
    [(''1'', \<lparr> order_id = Some ''1'', order_timestamp = None, order_lastTradeTimestamp = None,
           order_status = Some ''open'', order_symbol = Some ''ETH/BTC'',
           order_type = Some ''limit'', order_side = Some ''buy'', order_price = 2,
           order_cost = Some 0, order_amount = Some 10, order_filled = Some 0,
           order_remaining = Some 10, order_trades = None, order_fee = 0 \<rparr>)])"
  by (simp add: scenario_defs scenario_cache_defs Let_def)

text \<open>
  C1 as stated fails: the upsert loop overwrites the cache entry of every order that the
  reply lists, whatever its cached status. A canceled order \<^verbatim>\<open>1\<close> that the exchange
  still lists as open is \<^verbatim>\<open>open\<close> again after the call.
\<close>

theorem fetchOrders_reopens_canceled_counterexample:
  "map_option order_status
     (map_of [(''1'', scenario_order\<lparr> order_status := Some ''canceled'' \<rparr>)] ''1'') =
     Some (Some ''canceled'') \<and>
   map_option order_status
     (map_of (snd (fetchOrders scenario_exchange
                     [(''1'', scenario_order\<lparr> order_status := Some ''canceled'' \<rparr>)]
                     None None None
                     (Inr (AllOrders [(''BTC_ETH'', [scenario_open_order ''1''])])))) ''1'') =
     Some (Some ''open'')"
  unfolding scenario_canceled_run snd_conv by simp

lemma scenario_failing_run:
  "fetchOrders scenario_exchange
     [(''1'', scenario_order\<lparr> order_status := Some ''canceled'' \<rparr>)] None None None
     (Inr (AllOrders [(''BTC_ETH'', [(scenario_open_order ''1'')\<lparr> raw_rate := None \<rparr>])])) =
   (Inl (ExchangeError, ''not a number''),
    [(''1'', scenario_order\<lparr> order_status := Some ''canceled'' \<rparr>)])"
  by (simp add: scenario_defs scenario_cache_defs Let_def)

text \<open>
  The canceled order \<^verbatim>\<open>1\<close> of the cache under three calls: the reply lists only the order
  \<^verbatim>\<open>2\<close>; the reply lists the order \<^verbatim>\<open>1\<close> without a rate, so that parsing it throws; the
  reply lists the order \<^verbatim>\<open>1\<close> and the call returns.
\<close>

theorem fetchOrders_terminal_status_witness:
  "map_of (snd (fetchOrders scenario_exchange
                  [(''1'', scenario_order\<lparr> order_status := Some ''canceled'' \<rparr>)]
                  None None None
                  (Inr (AllOrders [(''BTC_ETH'', [scenario_open_order ''2''])])))) ''1'' =
     Some (scenario_order\<lparr> order_status := Some ''canceled'' \<rparr>) \<and>
   snd (fetchOrders scenario_exchange
          [(''1'', scenario_order\<lparr> order_status := Some ''canceled'' \<rparr>)]
          None None None
          (Inr (AllOrders [(''BTC_ETH'',
                  [(scenario_open_order ''1'')\<lparr> raw_rate := None \<rparr>])]))) =
     [(''1'', scenario_order\<lparr> order_status := Some ''canceled'' \<rparr>)] \<and>
   (\<exists>openOrder m.
      parseOrder scenario_exchange
        ((scenario_open_order ''1'')\<lparr> raw_status := Some ''open'', raw_type := Some ''limit'',
            raw_side := raw_type (scenario_open_order ''1''),
            raw_price := raw_rate (scenario_open_order ''1'') \<rparr>) m = Inr openOrder \<and>
      order_status openOrder = Some ''open'' \<and>
      map_of (snd (fetchOrders scenario_exchange
                     [(''1'', scenario_order\<lparr> order_status := Some ''canceled'' \<rparr>)]
                     None None None
                     (Inr (AllOrders [(''BTC_ETH'', [scenario_open_order ''1''])])))) ''1'' =
        Some openOrder)"
proof (intro conjI)
  let ?canceled = "scenario_order\<lparr> order_status := Some ''canceled'' \<rparr>"
  let ?listed = "AllOrders [(''BTC_ETH'', [scenario_open_order ''1''])]"
  have cached: "map_of [(''1'', ?canceled)] ''1'' = Some ?canceled" by simp
  have terminal: "order_status ?canceled = Some ''closed'' \<or>
                  order_status ?canceled = Some ''canceled''" by simp
  have absent: "\<forall>response. (Inr (AllOrders [(''BTC_ETH'', [scenario_open_order ''2''])])
                               :: exn + open_orders_response) = Inr response \<longrightarrow>
                             ''1'' \<notin> set (response_ids response)"
    by (simp add: response_ids_def scenario_open_order_def js_string_def)
  from fetchOrders_terminal_status [OF cached terminal,
      where reply = "Inr (AllOrders [(''BTC_ETH'', [scenario_open_order ''2''])])"
        and ex = scenario_exchange and symbol = None and since = None and limit = None]
    absent
  show "map_of (snd (fetchOrders scenario_exchange [(''1'', ?canceled)] None None None
                  (Inr (AllOrders [(''BTC_ETH'', [scenario_open_order ''2''])])))) ''1'' =
        Some ?canceled"
    by blast
  have throws: "fst (fetchOrders scenario_exchange [(''1'', ?canceled)] None None None
          (Inr (AllOrders [(''BTC_ETH'',
                  [(scenario_open_order ''1'')\<lparr> raw_rate := None \<rparr>])]))) =
        Inl (ExchangeError, ''not a number'')"
    unfolding scenario_failing_run by simp
  from fetchOrders_terminal_status [OF cached terminal,
      where reply = "Inr (AllOrders [(''BTC_ETH'',
                  [(scenario_open_order ''1'')\<lparr> raw_rate := None \<rparr>])])"
        and ex = scenario_exchange and symbol = None and since = None and limit = None
        and e = "(ExchangeError, ''not a number'')"]
    throws
  show "snd (fetchOrders scenario_exchange [(''1'', ?canceled)] None None None
          (Inr (AllOrders [(''BTC_ETH'',
                  [(scenario_open_order ''1'')\<lparr> raw_rate := None \<rparr>])]))) =
        [(''1'', ?canceled)]"
    by blast
  have listed: "''1'' \<in> set (response_ids ?listed)"
    by (simp add: response_ids_def scenario_open_order_def js_string_def)
  have returns: "\<exists>result. fst (fetchOrders scenario_exchange [(''1'', ?canceled)] None None None
          (Inr ?listed)) = Inr result"
    unfolding scenario_canceled_run by simp
  then obtain result where result: "fst (fetchOrders scenario_exchange [(''1'', ?canceled)]
          None None None (Inr ?listed)) = Inr result" ..
  have only: "\<And>raw. raw \<in> set (response_orders ?listed) \<Longrightarrow> raw = scenario_open_order ''1''"
    by simp
  from fetchOrders_terminal_status [OF cached terminal,
      where reply = "Inr ?listed" and response = ?listed and result = result
        and ex = scenario_exchange and symbol = None and since = None and limit = None]
    listed result
  obtain openOrder raw m where
    raw: "raw \<in> set (response_orders ?listed)"
    and parsed: "parseOrder scenario_exchange
        (raw\<lparr> raw_status := Some ''open'', raw_type := Some ''limit'',
              raw_side := raw_type raw, raw_price := raw_rate raw \<rparr>) m = Inr openOrder"
    and status: "order_status openOrder = Some ''open''"
    and entry: "map_of (snd (fetchOrders scenario_exchange [(''1'', ?canceled)] None None None
                     (Inr ?listed))) ''1'' = Some openOrder"
    by blast
  from only [OF raw] parsed status entry
  show "\<exists>openOrder m.
      parseOrder scenario_exchange
        ((scenario_open_order ''1'')\<lparr> raw_status := Some ''open'', raw_type := Some ''limit'',
            raw_side := raw_type (scenario_open_order ''1''),
            raw_price := raw_rate (scenario_open_order ''1'') \<rparr>) m = Inr openOrder \<and>
      order_status openOrder = Some ''open'' \<and>
      map_of (snd (fetchOrders scenario_exchange [(''1'', ?canceled)] None None None
                     (Inr ?listed))) ''1'' = Some openOrder"
    by blast
qed

theorem fetchOrders_idempotent_witness:
  "distinct (map fst [(''1'', scenario_order)]) \<and>
   snd (fetchOrders scenario_exchange
          (snd (fetchOrders scenario_exchange [(''1'', scenario_order)] None None None
                  (Inr (AllOrders [(''BTC_ETH'', [scenario_open_order ''2''])]))))
          None None None (Inr (AllOrders [(''BTC_ETH'', [scenario_open_order ''2''])]))) =
   snd (fetchOrders scenario_exchange [(''1'', scenario_order)] None None None
          (Inr (AllOrders [(''BTC_ETH'', [scenario_open_order ''2''])])))"
  using fetchOrders_idempotent [of "[(''1'', scenario_order)]" scenario_exchange None None None
          "Inr (AllOrders [(''BTC_ETH'', [scenario_open_order ''2''])])"]
  by simp

subsection \<open>Cancelling an order\<close>

lemma mark_canceled_present:
  "map_of orders k = Some cached \<Longrightarrow>
   map_of (mark_canceled k orders) k = Some (cached\<lparr> order_status := Some ''canceled'' \<rparr>)"
  by (simp add: mark_canceled_def AList.update_conv')

lemma mark_canceled_absent: "map_of orders k = None \<Longrightarrow> mark_canceled k orders = orders"
  by (simp add: mark_canceled_def)

lemma cancelOrder_keeps_presence:
  "map_of orders k = Some cached \<Longrightarrow>
   \<exists>cached'. map_of (snd (cancelOrder orders k reply)) k = Some cached'"
  by (auto simp: cancelOrder_def mark_canceled_def AList.update_conv' split: sum.splits)

lemma cancelOrder_pending:
  "cancelOrder orders k (Inl (CancelPending, message)) =
     (Inl (CancelPending, message), mark_canceled k orders)"
  by (simp add: cancelOrder_def)

text \<open>
  C4. When the request of \<open>cancelOrder\<close> fails with a \<open>CancelPending\<close> exception, the
  call throws that same exception, and in the cache that it leaves the order of that id,
  when the cache has one, has the status \<^verbatim>\<open>canceled\<close> and is otherwise unchanged.
  Consequently, after two calls for the same id of which the second fails with
  \<open>CancelPending\<close>, the cached order has the status \<^verbatim>\<open>canceled\<close>, whatever the first
  call met.
\<close>

theorem cancelOrder_pending_marks_canceled:
  assumes "map_of orders k = Some cached"
  shows "fst (cancelOrder orders k (Inl (CancelPending, message))) =
           Inl (CancelPending, message) \<and>
         map_of (snd (cancelOrder orders k (Inl (CancelPending, message)))) k =
           Some (cached\<lparr> order_status := Some ''canceled'' \<rparr>) \<and>
         map_option order_status
           (map_of (snd (cancelOrder (snd (cancelOrder orders k first)) k
                           (Inl (CancelPending, message)))) k) =
           Some (Some ''canceled'')"
proof -
  from cancelOrder_keeps_presence [OF assms, of first] obtain cached' where
    c': "map_of (snd (cancelOrder orders k first)) k = Some cached'" by blast
  have "map_of (mark_canceled k (snd (cancelOrder orders k first))) k =
          Some (cached'\<lparr> order_status := Some ''canceled'' \<rparr>)"
    by (rule mark_canceled_present [OF c'])
  then show ?thesis
    unfolding cancelOrder_pending fst_conv snd_conv
    by (simp add: mark_canceled_present [OF assms])
qed

theorem cancelOrder_pending_marks_canceled_witness:
  "map_of [(''1'', scenario_order)] ''1'' = Some scenario_order \<and>
   fst (cancelOrder [(''1'', scenario_order)] ''1''
          (Inl (CancelPending, ''You have already called cancelOrder or moveOrder on this order.'')
             :: exn + unit)) =
     Inl (CancelPending, ''You have already called cancelOrder or moveOrder on this order.'') \<and>
   map_option order_status
     (map_of (snd (cancelOrder (snd (cancelOrder [(''1'', scenario_order)] ''1'' (Inr ())))
                     ''1''
                     (Inl (CancelPending,
                           ''You have already called cancelOrder or moveOrder on this order.'')
                        :: exn + unit))) ''1'') =
     Some (Some ''canceled'')"
proof -
  have present: "map_of [(''1'', scenario_order)] ''1'' = Some scenario_order" by simp
  from cancelOrder_pending_marks_canceled
          [OF present,
           of "''You have already called cancelOrder or moveOrder on this order.''" "Inr ()"]
  show ?thesis using present by blast
qed

subsection \<open>Market orders\<close>

lemma parseOrder_type:
  "parseOrder ex order market = Inr parsed \<Longrightarrow>
   order_type parsed =
     (if raw_type order = or_else (raw_side order) (raw_type order) then None
      else raw_type order)"
  by (auto simp: parseOrder_def Let_def split: sum.splits prod.splits)

lemma createOrder_returns:
  "createOrder ex orders symbol type0 side amount price now send = (Inr order, orders') \<Longrightarrow>
   orders' = AList.update (order_key order) order orders \<and>
   (\<exists>market rate amount' response.
      market_of ex symbol = Inr market \<and>
      priceToPrecision ex (Some symbol) price = Inr rate \<and>
      amountToPrecision ex (Some symbol) amount = Inr amount' \<and>
      send side \<lparr> request_currencyPair = market_id market, request_rate = rate,
                  request_amount = amount' \<rparr> = Inr response \<and>
      parseOrder ex
        (response\<lparr>
           raw_timestamp := or_else (raw_timestamp response) (Some now),
           raw_status := or_else (raw_status response) (Some ''open''),
           raw_type := or_else (raw_type response)
                         (Some (if type0 = ''market'' then ''limit'' else type0)),
           raw_side := or_else (raw_side response) (Some side),
           raw_price := or_else (raw_price response) price,
           raw_amount := or_else (raw_amount response) (Some amount) \<rparr>)
        (Some market) = Inr order)"
  by (auto simp: createOrder_def Let_def split: sum.splits)

lemma createOrder_market_throws:
  "fst (createOrder ex orders symbol ''market'' side amount price now send) = Inl e \<Longrightarrow>
   snd (createOrder ex orders symbol ''market'' side amount price now send) = orders \<and>
   (market_of ex symbol = Inl e \<or>
    (\<exists>market. market_of ex symbol = Inr market \<and>
       (priceToPrecision ex (Some symbol) price = Inl e \<or>
        (\<exists>rate. priceToPrecision ex (Some symbol) price = Inr rate \<and>
           (amountToPrecision ex (Some symbol) amount = Inl e \<or>
            (\<exists>amount'. amountToPrecision ex (Some symbol) amount = Inr amount' \<and>
               (send side \<lparr> request_currencyPair = market_id market, request_rate = rate,
                  request_amount = amount' \<rparr> = Inl e \<or>
                (\<exists>response.
                   send side \<lparr> request_currencyPair = market_id market, request_rate = rate,
                  request_amount = amount' \<rparr> = Inr response \<and>
                   parseOrder ex
                     (response\<lparr>
           raw_timestamp := or_else (raw_timestamp response) (Some now),
           raw_status := or_else (raw_status response) (Some ''open''),
           raw_type := or_else (raw_type response) (Some ''limit''),
           raw_side := or_else (raw_side response) (Some side),
           raw_price := or_else (raw_price response) price,
           raw_amount := or_else (raw_amount response) (Some amount) \<rparr>)
                     (Some market) = Inl e))))))))"
  by (auto simp: createOrder_def Let_def split: sum.splits)

lemma createOrder_market_runs:
  "market_of ex symbol = Inr market \<Longrightarrow>
   priceToPrecision ex (Some symbol) price = Inr rate \<Longrightarrow>
   amountToPrecision ex (Some symbol) amount = Inr amount' \<Longrightarrow>
   send side \<lparr> request_currencyPair = market_id market, request_rate = rate,
                  request_amount = amount' \<rparr> = Inr response \<Longrightarrow>
   parseOrder ex
     (response\<lparr>
           raw_timestamp := or_else (raw_timestamp response) (Some now),
           raw_status := or_else (raw_status response) (Some ''open''),
           raw_type := or_else (raw_type response) (Some ''limit''),
           raw_side := or_else (raw_side response) (Some side),
           raw_price := or_else (raw_price response) price,
           raw_amount := or_else (raw_amount response) (Some amount) \<rparr>)
     (Some market) = Inr order \<Longrightarrow>
   createOrder ex orders symbol ''market'' side amount price now send =
     (Inr order, AList.update (order_key order) order orders)"
  by (simp add: createOrder_def Let_def)

text \<open>
  C10. A call of \<open>createOrder\<close> with the type \<^verbatim>\<open>market\<close> is the call with the type
  \<^verbatim>\<open>limit\<close>: it returns or throws the same and leaves the same cache. The request that
  is sent carries the id of the market of the symbol and the price and the amount as the
  precision helpers give them. When the transport answers and \<open>parseOrder\<close> accepts the
  answer, extended with the time, the status \<^verbatim>\<open>open\<close>, the type \<^verbatim>\<open>limit\<close>, the side, the
  price and the amount where the answer has none of its own, the call returns the
  parsed order and has stored it in the cache under its id; a call that returns has
  done exactly that. The type of the returned order is \<^verbatim>\<open>limit\<close> (the answer of the
  exchange carrying no type or side of its own, and the side not being the text
  \<^verbatim>\<open>limit\<close>). A call that throws leaves the cache as it was, and its exception is the one
  of the market lookup, of a precision helper, of the transport or of \<open>parseOrder\<close>:
  none is due to the type.
\<close>

theorem createOrder_market_as_limit:
  "createOrder ex orders symbol ''market'' side amount price now send =
     createOrder ex orders symbol ''limit'' side amount price now send \<and>
   (market_of ex symbol = Inr market \<and>
    priceToPrecision ex (Some symbol) price = Inr rate \<and>
    amountToPrecision ex (Some symbol) amount = Inr amount' \<and>
    send side \<lparr> request_currencyPair = market_id market, request_rate = rate,
                  request_amount = amount' \<rparr> = Inr response \<and>
    parseOrder ex
      (response\<lparr>
           raw_timestamp := or_else (raw_timestamp response) (Some now),
           raw_status := or_else (raw_status response) (Some ''open''),
           raw_type := or_else (raw_type response) (Some ''limit''),
           raw_side := or_else (raw_side response) (Some side),
           raw_price := or_else (raw_price response) price,
           raw_amount := or_else (raw_amount response) (Some amount) \<rparr>)
      (Some market) = Inr order \<longrightarrow>
      createOrder ex orders symbol ''market'' side amount price now send =
        (Inr order, AList.update (order_key order) order orders) \<and>
      map_of (AList.update (order_key order) order orders) (order_key order) = Some order \<and>
      (raw_type response = None \<and> raw_side response = None \<and> side \<noteq> ''limit'' \<longrightarrow>
         order_type order = Some ''limit'')) \<and>
   (createOrder ex orders symbol ''market'' side amount price now send =
      (Inr returned, orders') \<longrightarrow>
      orders' = AList.update (order_key returned) returned orders \<and>
      map_of orders' (order_key returned) = Some returned \<and>
      (\<exists>market rate amount' response.
         market_of ex symbol = Inr market \<and>
         priceToPrecision ex (Some symbol) price = Inr rate \<and>
         amountToPrecision ex (Some symbol) amount = Inr amount' \<and>
         send side \<lparr> request_currencyPair = market_id market, request_rate = rate,
                  request_amount = amount' \<rparr> = Inr response \<and>
         parseOrder ex
           (response\<lparr>
           raw_timestamp := or_else (raw_timestamp response) (Some now),
           raw_status := or_else (raw_status response) (Some ''open''),
           raw_type := or_else (raw_type response) (Some ''limit''),
           raw_side := or_else (raw_side response) (Some side),
           raw_price := or_else (raw_price response) price,
           raw_amount := or_else (raw_amount response) (Some amount) \<rparr>)
           (Some market) = Inr returned \<and>
         (raw_type response = None \<and> raw_side response = None \<and> side \<noteq> ''limit'' \<longrightarrow>
            order_type returned = Some ''limit''))) \<and>
   (fst (createOrder ex orders symbol ''market'' side amount price now send) = Inl e \<longrightarrow>
      snd (createOrder ex orders symbol ''market'' side amount price now send) = orders \<and>
      (market_of ex symbol = Inl e \<or>
       (\<exists>market. market_of ex symbol = Inr market \<and>
          (priceToPrecision ex (Some symbol) price = Inl e \<or>
           (\<exists>rate. priceToPrecision ex (Some symbol) price = Inr rate \<and>
              (amountToPrecision ex (Some symbol) amount = Inl e \<or>
               (\<exists>amount'. amountToPrecision ex (Some symbol) amount = Inr amount' \<and>
                  (send side \<lparr> request_currencyPair = market_id market, request_rate = rate,
                  request_amount = amount' \<rparr> = Inl e \<or>
                   (\<exists>response.
                      send side \<lparr> request_currencyPair = market_id market, request_rate = rate,
                  request_amount = amount' \<rparr> = Inr response \<and>
                      parseOrder ex
                        (response\<lparr>
           raw_timestamp := or_else (raw_timestamp response) (Some now),
           raw_status := or_else (raw_status response) (Some ''open''),
           raw_type := or_else (raw_type response) (Some ''limit''),
           raw_side := or_else (raw_side response) (Some side),
           raw_price := or_else (raw_price response) price,
           raw_amount := or_else (raw_amount response) (Some amount) \<rparr>)
                        (Some market) = Inl e)))))))))"
proof (intro conjI impI)
  show "createOrder ex orders symbol ''market'' side amount price now send =
        createOrder ex orders symbol ''limit'' side amount price now send"
    by (simp add: createOrder_def)
next
  assume a: "market_of ex symbol = Inr market \<and>
    priceToPrecision ex (Some symbol) price = Inr rate \<and>
    amountToPrecision ex (Some symbol) amount = Inr amount' \<and>
    send side \<lparr> request_currencyPair = market_id market, request_rate = rate,
                  request_amount = amount' \<rparr> = Inr response \<and>
    parseOrder ex
      (response\<lparr>
           raw_timestamp := or_else (raw_timestamp response) (Some now),
           raw_status := or_else (raw_status response) (Some ''open''),
           raw_type := or_else (raw_type response) (Some ''limit''),
           raw_side := or_else (raw_side response) (Some side),
           raw_price := or_else (raw_price response) price,
           raw_amount := or_else (raw_amount response) (Some amount) \<rparr>)
      (Some market) = Inr order"
  then show "createOrder ex orders symbol ''market'' side amount price now send =
        (Inr order, AList.update (order_key order) order orders)"
    by (simp add: createOrder_market_runs)
  show "map_of (AList.update (order_key order) order orders) (order_key order) = Some order"
    by (simp add: AList.update_conv')
  assume "raw_type response = None \<and> raw_side response = None \<and> side \<noteq> ''limit''"
  with a parseOrder_type [of ex _ "Some market" order]
  show "order_type order = Some ''limit''"
    by (auto simp: or_else_def)
next
  assume r: "createOrder ex orders symbol ''market'' side amount price now send =
      (Inr returned, orders')"
  from createOrder_returns [OF r]
  show "orders' = AList.update (order_key returned) returned orders" by blast
  then show "map_of orders' (order_key returned) = Some returned"
    by (simp add: AList.update_conv')
  from createOrder_returns [OF r] obtain market rate amount' response where
    m: "market_of ex symbol = Inr market"
    and pr: "priceToPrecision ex (Some symbol) price = Inr rate"
    and am: "amountToPrecision ex (Some symbol) amount = Inr amount'"
    and s: "send side \<lparr> request_currencyPair = market_id market, request_rate = rate,
                  request_amount = amount' \<rparr> = Inr response"
    and p: "parseOrder ex
      (response\<lparr>
           raw_timestamp := or_else (raw_timestamp response) (Some now),
           raw_status := or_else (raw_status response) (Some ''open''),
           raw_type := or_else (raw_type response) (Some ''limit''),
           raw_side := or_else (raw_side response) (Some side),
           raw_price := or_else (raw_price response) price,
           raw_amount := or_else (raw_amount response) (Some amount) \<rparr>)
      (Some market) = Inr returned" by auto
  have "raw_type response = None \<and> raw_side response = None \<and> side \<noteq> ''limit'' \<longrightarrow>
            order_type returned = Some ''limit''"
    using parseOrder_type [OF p] by (auto simp: or_else_def)
  with m pr am s p
  show "\<exists>market rate amount' response.
         market_of ex symbol = Inr market \<and>
         priceToPrecision ex (Some symbol) price = Inr rate \<and>
         amountToPrecision ex (Some symbol) amount = Inr amount' \<and>
         send side \<lparr> request_currencyPair = market_id market, request_rate = rate,
                  request_amount = amount' \<rparr> = Inr response \<and>
         parseOrder ex
           (response\<lparr>
           raw_timestamp := or_else (raw_timestamp response) (Some now),
           raw_status := or_else (raw_status response) (Some ''open''),
           raw_type := or_else (raw_type response) (Some ''limit''),
           raw_side := or_else (raw_side response) (Some side),
           raw_price := or_else (raw_price response) price,
           raw_amount := or_else (raw_amount response) (Some amount) \<rparr>)
           (Some market) = Inr returned \<and>
         (raw_type response = None \<and> raw_side response = None \<and> side \<noteq> ''limit'' \<longrightarrow>
            order_type returned = Some ''limit'')"
    by blast
next
  assume t: "fst (createOrder ex orders symbol ''market'' side amount price now send) = Inl e"
  from createOrder_market_throws [OF t]
  show "snd (createOrder ex orders symbol ''market'' side amount price now send) = orders"
    by blast
  from createOrder_market_throws [OF t]
  show "market_of ex symbol = Inl e \<or>
       (\<exists>market. market_of ex symbol = Inr market \<and>
          (priceToPrecision ex (Some symbol) price = Inl e \<or>
           (\<exists>rate. priceToPrecision ex (Some symbol) price = Inr rate \<and>
              (amountToPrecision ex (Some symbol) amount = Inl e \<or>
               (\<exists>amount'. amountToPrecision ex (Some symbol) amount = Inr amount' \<and>
                  (send side \<lparr> request_currencyPair = market_id market, request_rate = rate,
                  request_amount = amount' \<rparr> = Inl e \<or>
                   (\<exists>response.
                      send side \<lparr> request_currencyPair = market_id market, request_rate = rate,
                  request_amount = amount' \<rparr> = Inr response \<and>
                      parseOrder ex
                        (response\<lparr>
           raw_timestamp := or_else (raw_timestamp response) (Some now),
           raw_status := or_else (raw_status response) (Some ''open''),
           raw_type := or_else (raw_type response) (Some ''limit''),
           raw_side := or_else (raw_side response) (Some side),
           raw_price := or_else (raw_price response) price,
           raw_amount := or_else (raw_amount response) (Some amount) \<rparr>)
                        (Some market) = Inl e)))))))"
    by simp
qed

lemma scenario_createOrder_run:
  "createOrder scenario_exchange [] ''ETH/BTC'' ''market'' ''buy'' 10 (Some 2) 1559908800000
     scenario_send =
   (Inr \<lparr> order_id = Some ''31226040'', order_timestamp = Some 1559908800000,
           order_lastTradeTimestamp = None, order_status = Some ''open'',
           order_symbol = Some ''ETH/BTC'', order_type = Some ''limit'',
           order_side = Some ''buy'', order_price = 2, order_cost = Some 0,
           order_amount = Some 10, order_filled = Some 0, order_remaining = Some 10,
           order_trades = Some [], order_fee = 0 \<rparr>,
    [(''31226040'',
      \<lparr> order_id = Some ''31226040'', order_timestamp = Some 1559908800000,
        order_lastTradeTimestamp = None, order_status = Some ''open'',
        order_symbol = Some ''ETH/BTC'', order_type = Some ''limit'',
        order_side = Some ''buy'', order_price = 2, order_cost = Some 0,
        order_amount = Some 10, order_filled = Some 0, order_remaining = Some 10,
        order_trades = Some [], order_fee = 0 \<rparr>)])"
  by (simp add: createOrder_def scenario_send_def scenario_defs Let_def)

lemma scenario_createOrder_unknown_run:
  "createOrder scenario_exchange [] ''XRP/BTC'' ''market'' ''buy'' 10 (Some 2) 1559908800000
     scenario_send =
   (Inl (ExchangeError, ''poloniex does not have market symbol XRP/BTC''), [])"
  by (simp add: createOrder_def scenario_defs Let_def)

text \<open>
  A market order to buy 10 ETH at 2 BTC: it is sent as the request
  \<^verbatim>\<open>{currencyPair:"BTC_ETH", rate:2, amount:10}\<close>, cached and returned with the type
  \<^verbatim>\<open>limit\<close>. The same order for a symbol without a market throws and leaves the cache.
\<close>

theorem createOrder_market_as_limit_witness:
  "createOrder scenario_exchange [] ''ETH/BTC'' ''market'' ''buy'' 10 (Some 2) 1559908800000
     scenario_send =
   createOrder scenario_exchange [] ''ETH/BTC'' ''limit'' ''buy'' 10 (Some 2) 1559908800000
     scenario_send \<and>
   (\<exists>returned orders' response.
      createOrder scenario_exchange [] ''ETH/BTC'' ''market'' ''buy'' 10 (Some 2) 1559908800000
        scenario_send = (Inr returned, orders') \<and>
      scenario_send ''buy'' \<lparr> request_currencyPair = ''BTC_ETH'', request_rate = 2,
                              request_amount = 10 \<rparr> = Inr response \<and>
      orders' = AList.update (order_key returned) returned [] \<and>
      map_of orders' (order_key returned) = Some returned \<and>
      order_type returned = Some ''limit'') \<and>
   snd (createOrder scenario_exchange [] ''XRP/BTC'' ''market'' ''buy'' 10 (Some 2)
          1559908800000 scenario_send) = []"
proof (intro conjI)
  obtain returned orders' where run:
    "createOrder scenario_exchange [] ''ETH/BTC'' ''market'' ''buy'' 10 (Some 2) 1559908800000
       scenario_send = (Inr returned, orders')"
    using scenario_createOrder_run by blast
  note market_as_limit = createOrder_market_as_limit
      [where ex = scenario_exchange and orders = "[]" and symbol = "''ETH/BTC''"
         and side = "''buy''" and amount = 10 and price = "Some 2" and now = 1559908800000
         and send = scenario_send and returned = returned and orders' = orders']
  from market_as_limit show
    "createOrder scenario_exchange [] ''ETH/BTC'' ''market'' ''buy'' 10 (Some 2) 1559908800000
       scenario_send =
     createOrder scenario_exchange [] ''ETH/BTC'' ''limit'' ''buy'' 10 (Some 2) 1559908800000
       scenario_send" by (rule conjunct1)
  note returns = market_as_limit [THEN conjunct2, THEN conjunct2, THEN conjunct1, rule_format, OF run]
  note cache = returns [THEN conjunct1]
  note cached = returns [THEN conjunct2, THEN conjunct1]
  from returns [THEN conjunct2, THEN conjunct2] obtain market rate amount' response where
    m: "market_of scenario_exchange ''ETH/BTC'' = Inr market"
    and pr: "priceToPrecision scenario_exchange (Some ''ETH/BTC'') (Some 2) = Inr rate"
    and am: "amountToPrecision scenario_exchange (Some ''ETH/BTC'') 10 = Inr amount'"
    and s: "scenario_send ''buy'' \<lparr> request_currencyPair = market_id market, request_rate = rate,
                  request_amount = amount' \<rparr> = Inr response"
    and ty: "raw_type response = None \<and> raw_side response = None \<and> ''buy'' \<noteq> ''limit'' \<longrightarrow>
            order_type returned = Some ''limit''"
    by (elim exE conjE)
  from m pr am have "market_id market = ''BTC_ETH''" "rate = 2" "amount' = 10"
    by (auto simp: scenario_defs)
  with s have sent: "scenario_send ''buy'' \<lparr> request_currencyPair = ''BTC_ETH'', request_rate = 2,
                              request_amount = 10 \<rparr> = Inr response"
    by simp
  from s ty have limit: "order_type returned = Some ''limit''"
    by (auto simp: scenario_send_def)
  show
    "\<exists>returned orders' response.
      createOrder scenario_exchange [] ''ETH/BTC'' ''market'' ''buy'' 10 (Some 2) 1559908800000
        scenario_send = (Inr returned, orders') \<and>
      scenario_send ''buy'' \<lparr> request_currencyPair = ''BTC_ETH'', request_rate = 2,
                              request_amount = 10 \<rparr> = Inr response \<and>
      orders' = AList.update (order_key returned) returned [] \<and>
      map_of orders' (order_key returned) = Some returned \<and>
      order_type returned = Some ''limit''"
    apply (rule exI [of _ returned], rule exI [of _ orders'], rule exI [of _ response])
    apply (intro conjI)
        apply (rule run)
       apply (rule sent)
      apply (rule cache)
     apply (rule cached)
    apply (rule limit)
    done
  have throws: "fst (createOrder scenario_exchange [] ''XRP/BTC'' ''market'' ''buy'' 10 (Some 2)
          1559908800000 scenario_send) =
        Inl (ExchangeError, ''poloniex does not have market symbol XRP/BTC'')"
    unfolding scenario_createOrder_unknown_run by simp
  from createOrder_market_as_limit
      [where ex = scenario_exchange and orders = "[]" and symbol = "''XRP/BTC''"
         and side = "''buy''" and amount = 10 and price = "Some 2" and now = 1559908800000
         and send = scenario_send
         and e = "(ExchangeError, ''poloniex does not have market symbol XRP/BTC'')",
       THEN conjunct2, THEN conjunct2, THEN conjunct2, rule_format, OF throws]
  show "snd (createOrder scenario_exchange [] ''XRP/BTC'' ''market'' ''buy'' 10 (Some 2)
          1559908800000 scenario_send) = []"
    by (rule conjunct1)
qed

lemma createOrder_earlier_refuses_market:
  "createOrder_earlier_guard ''market'' = Inl (ExchangeError, ''poloniex allows limit orders only'')"
  by (simp add: createOrder_earlier_guard_def)

subsection \<open>Market resolution\<close>

text \<open>
  C9, evaluated at a pair that is not in the market index. \<^verbatim>\<open>parseTrade\<close> builds the
  symbol from the raw halves of the id, \<^verbatim>\<open>STR/BTC\<close>; the loops of \<^verbatim>\<open>fetchTickers\<close>,
  \<^verbatim>\<open>fetchOrderBooks\<close> and \<^verbatim>\<open>fetchMyTrades\<close> apply the remapping of
  \<^verbatim>\<open>commonCurrencies\<close> to both halves first, and give \<^verbatim>\<open>XLM/BTC\<close>.
\<close>

theorem parseTrade_unlisted_pair_not_remapped:
  "map_of (markets_by_id scenario_exchange) ''BTC_STR'' = None \<and>
   t_symbol (parseTrade scenario_exchange (scenario_trade ''BTC_STR'' ''buy'' 100 0) None) =
     Some ''STR/BTC'' \<and>
   fetchTickers_symbol scenario_exchange ''BTC_STR'' = ''XLM/BTC'' \<and>
   fetchOrderBooks_symbol scenario_exchange ''BTC_STR'' = ''XLM/BTC'' \<and>
   map t_symbol
     (fetchMyTrades_trades scenario_exchange ''BTC_STR'' [scenario_trade ''BTC_STR'' ''buy'' 100 0]) =
     [Some ''XLM/BTC'']"
  by (simp add: parseTrade_def fetchTickers_symbol_def fetchOrderBooks_symbol_def
      fetchMyTrades_trades_def scenario_exchange_def scenario_market_def scenario_trade_def
      commonCurrencyCode_def poloniex_commonCurrencies_def js_string_def at_index_def Let_def)

subsection \<open>Trade fees\<close>



lemma trade_number_keys:
  "trade_number trade key = Some v \<Longrightarrow> key \<in> set parseTrade_keys"
  by (auto simp: trade_number_def parseTrade_keys_def split: if_splits)







subsection \<open>Balances\<close>

lemma in_update_cases:
  "(k', v') \<in> set (AList.update k v al) \<Longrightarrow> (k', v') \<in> set al \<or> (k', v') = (k, v)"
  by (induction al) (auto split: if_splits)

lemma fetchBalance_loop_source:
  "(code, acct) \<in> set (fetchBalance_loop ex response result) \<Longrightarrow>
   (code, acct) \<in> set result \<or>
   (\<exists>currencyId balance.
      (currencyId, balance) \<in> set response \<and>
      code = js_string (commonCurrencyCode ex (Some currencyId)) \<and>
      free acct = balance_available balance \<and> used acct = balance_onOrders balance \<and>
      account_total acct = sum_js (free acct) (used acct))"
proof (induction ex response result rule: fetchBalance_loop.induct)
  case (1 ex result)
  then show ?case by simp
next
  case (2 ex currencyId balance rest result)
  let ?account0 = "\<lparr> free = balance_available balance, used = balance_onOrders balance,
                        account_total = Some 0 \<rparr>"
  let ?account = "?account0\<lparr> account_total := sum_js (free ?account0) (used ?account0) \<rparr>"
  let ?key = "js_string (commonCurrencyCode ex (Some currencyId))"
  from "2.prems" have "(code, acct) \<in> set (fetchBalance_loop ex rest (AList.update ?key ?account result))"
    by (simp add: Let_def)
  from "2.IH" [OF refl refl refl this]
  show ?case
  proof
    assume "(code, acct) \<in> set (AList.update ?key ?account result)"
    from in_update_cases [OF this] show ?thesis
    proof
      assume "(code, acct) \<in> set result"
      then show ?thesis by simp
    next
      assume "(code, acct) = (?key, ?account)"
      then have "(currencyId, balance) \<in> set ((currencyId, balance) # rest) \<and>
        code = ?key \<and> free acct = balance_available balance \<and>
        used acct = balance_onOrders balance \<and>
        account_total acct = sum_js (free acct) (used acct)" by simp
      then show ?thesis by blast
    qed
  next
    assume "\<exists>currencyId balance.
      (currencyId, balance) \<in> set rest \<and>
      code = js_string (commonCurrencyCode ex (Some currencyId)) \<and>
      free acct = balance_available balance \<and> used acct = balance_onOrders balance \<and>
      account_total acct = sum_js (free acct) (used acct)"
    then show ?thesis by auto
  qed
qed

text \<open>
  C8. Every account in the result of \<open>fetchBalance\<close> has \<open>total = free + used\<close>, with
  \<open>free\<close> read from \<^verbatim>\<open>'available'\<close> and \<open>used\<close> from \<^verbatim>\<open>'onOrders'\<close> of an entry of the
  reply whose currency id is remapped to the code of the account: \<open>total\<close> is the
  \<open>sum_js\<close> of the two taken when the account is built, which is their sum when both
  are numbers.
\<close>

theorem fetchBalance_total:
  assumes "(code, acct) \<in> set (fetchBalance ex response)"
  shows "account_total acct = sum_js (free acct) (used acct) \<and>
         (\<forall>f u. free acct = Some f \<and> used acct = Some u \<longrightarrow> account_total acct = Some (f + u)) \<and>
         (\<exists>currencyId balance.
            (currencyId, balance) \<in> set response \<and>
            code = js_string (commonCurrencyCode ex (Some currencyId)) \<and>
            free acct = balance_available balance \<and> used acct = balance_onOrders balance)"
proof -
  from assms fetchBalance_loop_source [of code acct ex response "[]"]
  obtain currencyId balance where src: "(currencyId, balance) \<in> set response"
    "code = js_string (commonCurrencyCode ex (Some currencyId))"
    "free acct = balance_available balance" "used acct = balance_onOrders balance"
    "account_total acct = sum_js (free acct) (used acct)"
    by (auto simp: fetchBalance_def parseBalance_def)
  from src(5) have "\<forall>f u. free acct = Some f \<and> used acct = Some u \<longrightarrow> account_total acct = Some (f + u)"
    by simp
  with src show ?thesis by blast
qed

theorem fetchBalance_total_witness:
  "fetchBalance scenario_exchange
     [(''BTC'', \<lparr> balance_available = Some 1, balance_onOrders = Some (1/2) \<rparr>),
      (''STR'', \<lparr> balance_available = Some 3, balance_onOrders = Some 4 \<rparr>)] =
   [(''BTC'', \<lparr> free = Some 1, used = Some (1/2), account_total = Some (3/2) \<rparr>),
    (''XLM'', \<lparr> free = Some 3, used = Some 4, account_total = Some 7 \<rparr>)]"
proof -
  let ?response = "[(''BTC'', \<lparr> balance_available = Some 1, balance_onOrders = Some (1/2) \<rparr>),
      (''STR'', \<lparr> balance_available = Some (3::real), balance_onOrders = Some (4::real) \<rparr>)]"
  have shape: "\<exists>t1 t2. fetchBalance scenario_exchange ?response =
      [(''BTC'', \<lparr> free = Some 1, used = Some (1/2), account_total = t1 \<rparr>),
       (''XLM'', \<lparr> free = Some 3, used = Some 4, account_total = t2 \<rparr>)]"
    by (simp add: fetchBalance_def parseBalance_def
        commonCurrencyCode_def scenario_exchange_def poloniex_commonCurrencies_def
        js_string_def Let_def)
  then obtain t1 t2 where run: "fetchBalance scenario_exchange ?response =
      [(''BTC'', \<lparr> free = Some 1, used = Some (1/2), account_total = t1 \<rparr>),
       (''XLM'', \<lparr> free = Some 3, used = Some 4, account_total = t2 \<rparr>)]" by blast
  have "t1 = Some (3/2)"
    using fetchBalance_total [of "''BTC''" "\<lparr> free = Some 1, used = Some (1/2), account_total = t1 \<rparr>"
            scenario_exchange ?response]
    unfolding run by simp
  moreover have "t2 = Some 7"
    using fetchBalance_total [of "''XLM''" "\<lparr> free = Some 3, used = Some 4, account_total = t2 \<rparr>"
            scenario_exchange ?response]
    unfolding run by simp
  ultimately show ?thesis using run by simp
qed

lemma in_map_entry_cases:
  "(k', v') \<in> set (AList.map_entry k f al) \<Longrightarrow>
   (k', v') \<in> set al \<or> (\<exists>v. (k, v) \<in> set al \<and> k' = k \<and> v' = f v)"
  by (induction al) (auto split: if_splits)

lemma foldl_preserves:
  "(\<And>acc x. P acc \<Longrightarrow> P (f acc x)) \<Longrightarrow> P a \<Longrightarrow> P (foldl f a xs)"
  by (induction xs arbitrary: a) simp_all

lemma initSymbol_totals:
  assumes "\<forall>s b w. (s, b) \<in> set balances \<longrightarrow> wallet_total (b w) = 0"
  shows "\<forall>s b w. (s, b) \<in> set (initSymbol symbol balances) \<longrightarrow> wallet_total (b w) = 0"
  using assms by (auto simp: initSymbol_def dest!: in_update_cases)

lemma add_available_totals:
  assumes "\<forall>s b w. (s, b) \<in> set balances \<longrightarrow> wallet_total (b w) = 0"
  shows "\<forall>s b w. (s, b) \<in> set (add_available ex wallet balances entry) \<longrightarrow>
           wallet_total (b w) = 0"
proof (intro allI impI)
  fix s b w
  obtain symbol amount where e: "entry = (symbol, amount)" by (cases entry)
  assume "(s, b) \<in> set (add_available ex wallet balances entry)"
  with e initSymbol_totals [OF assms] show "wallet_total (b w) = 0"
    by (auto simp: add_available_def Let_def dest!: in_map_entry_cases)
qed

lemma add_on_orders_totals:
  assumes "\<forall>s b w. (s, b) \<in> set balances \<longrightarrow> wallet_total (b w) = 0"
  shows "\<forall>s b w. (s, b) \<in> set (add_on_orders ex balances entry) \<longrightarrow> wallet_total (b w) = 0"
proof (intro allI impI)
  fix s b w
  obtain symbol onOrders where e: "entry = (symbol, onOrders)" by (cases entry)
  assume "(s, b) \<in> set (add_on_orders ex balances entry)"
  with e assms initSymbol_totals [OF assms] show "wallet_total (b w) = 0"
    by (auto simp: add_on_orders_def Let_def dest!: in_map_entry_cases split: if_splits)
qed

lemma add_loan_totals:
  assumes "\<forall>s b w. (s, b) \<in> set balances \<longrightarrow> wallet_total (b w) = 0"
  shows "\<forall>s b w. (s, b) \<in> set (add_loan balances offer) \<longrightarrow> wallet_total (b w) = 0"
proof (intro allI impI)
  fix s b w
  assume "(s, b) \<in> set (add_loan balances offer)"
  with initSymbol_totals [OF assms] show "wallet_total (b w) = 0"
    by (auto simp: add_loan_def Let_def dest!: in_map_entry_cases)
qed

lemma calc_available_totals:
  assumes "\<forall>s b w. (s, b) \<in> set balances \<longrightarrow> wallet_total (b w) = 0"
  shows "\<forall>s b w. (s, b) \<in> set (calc_available ex available_reply balances) \<longrightarrow>
           wallet_total (b w) = 0"
  unfolding calc_available_def
proof (rule foldl_preserves [where P = "\<lambda>bs. \<forall>s b w. (s, b) \<in> set bs \<longrightarrow> wallet_total (b w) = 0"])
  show "\<forall>s b w. (s, b) \<in> set balances \<longrightarrow> wallet_total (b w) = 0" by (rule assms)
next
  fix acc :: balances and x :: "wallet \<times> (string \<times> real) list"
  assume acc: "\<forall>s b w. (s, b) \<in> set acc \<longrightarrow> wallet_total (b w) = 0"
  obtain wallet entries where x: "x = (wallet, entries)" by (cases x)
  have "\<forall>s b w. (s, b) \<in> set (foldl (add_available ex wallet) acc entries) \<longrightarrow>
          wallet_total (b w) = 0"
    by (rule foldl_preserves
          [where P = "\<lambda>bs. \<forall>s b w. (s, b) \<in> set bs \<longrightarrow> wallet_total (b w) = 0"])
       (erule add_available_totals, rule acc)
  then show "\<forall>s b w. (s, b) \<in> set (case x of (wallet, entries) \<Rightarrow>
                foldl (add_available ex wallet) acc entries) \<longrightarrow> wallet_total (b w) = 0"
    by (simp add: x)
qed

lemma calc_on_orders_totals:
  assumes "\<forall>s b w. (s, b) \<in> set balances \<longrightarrow> wallet_total (b w) = 0"
  shows "\<forall>s b w. (s, b) \<in> set (calc_on_orders ex openOrdersBalances balances) \<longrightarrow>
           wallet_total (b w) = 0"
  unfolding calc_on_orders_def
  by (rule foldl_preserves
        [where P = "\<lambda>bs. \<forall>s b w. (s, b) \<in> set bs \<longrightarrow> wallet_total (b w) = 0"])
     (erule add_on_orders_totals, rule assms)

lemma calc_loans_totals:
  assumes "\<forall>s b w. (s, b) \<in> set balances \<longrightarrow> wallet_total (b w) = 0"
  shows "\<forall>s b w. (s, b) \<in> set (calc_loans open_loans active_loans balances) \<longrightarrow>
           wallet_total (b w) = 0"
  unfolding calc_loans_def Let_def
  by (rule foldl_preserves
        [where P = "\<lambda>bs. \<forall>s b w. (s, b) \<in> set bs \<longrightarrow> wallet_total (b w) = 0"])
     (erule add_loan_totals, rule assms)

text \<open>
  C7. For every asset and wallet type in the result of \<open>fetchWalletBalance\<close>,
  \<open>total = available + on_orders\<close>. The total is written by the last pass alone: the
  result is that pass applied to what the three accumulation loops leave, whose
  \<open>available\<close> and \<open>on_orders\<close> it keeps, and after each of the three loops every total
  is still the \<open>0\<close> of \<open>initSymbol\<close>.
\<close>

theorem fetchWalletBalance_total:
  assumes "(symbol, b) \<in> set (fetchWalletBalance ex available_reply openOrdersBalances
                                  open_loans active_loans)"
  shows "wallet_total (b wallet) = available (b wallet) + on_orders (b wallet) \<and>
         (\<exists>b0. (symbol, b0) \<in> set (accumulate ex available_reply openOrdersBalances
                                      open_loans active_loans) \<and>
               available (b wallet) = available (b0 wallet) \<and>
               on_orders (b wallet) = on_orders (b0 wallet) \<and>
               wallet_total (b0 wallet) = 0) \<and>
         (\<forall>s b1 w.
            (s, b1) \<in> set (calc_available ex available_reply []) \<or>
            (s, b1) \<in> set (calc_on_orders ex openOrdersBalances
                              (calc_available ex available_reply [])) \<or>
            (s, b1) \<in> set (calc_loans open_loans active_loans
                              (calc_on_orders ex openOrdersBalances
                                 (calc_available ex available_reply []))) \<longrightarrow>
            wallet_total (b1 w) = 0)"
proof -
  let ?A = "calc_available ex available_reply []"
  let ?B = "calc_on_orders ex openOrdersBalances ?A"
  let ?C = "calc_loans open_loans active_loans ?B"
  have A: "\<forall>s b w. (s, b) \<in> set ?A \<longrightarrow> wallet_total (b w) = 0"
    by (rule calc_available_totals) simp
  have B: "\<forall>s b w. (s, b) \<in> set ?B \<longrightarrow> wallet_total (b w) = 0"
    by (rule calc_on_orders_totals [OF A])
  have C: "\<forall>s b w. (s, b) \<in> set ?C \<longrightarrow> wallet_total (b w) = 0"
    by (rule calc_loans_totals [OF B])
  from assms have "(symbol, b) \<in> (\<lambda>(symbol, b0).
      (symbol, \<lambda>wallet. (b0 wallet)\<lparr> wallet_total :=
                   available (b0 wallet) + on_orders (b0 wallet) \<rparr>)) ` set ?C"
    by (simp add: fetchWalletBalance_def accumulate_def calc_total_def)
  then obtain b0 where b0: "(symbol, b0) \<in> set ?C"
    and b: "b = (\<lambda>wallet. (b0 wallet)\<lparr> wallet_total :=
                   available (b0 wallet) + on_orders (b0 wallet) \<rparr>)"
    by (elim imageE) (simp split: prod.splits)
  from b0 C have zero: "wallet_total (b0 wallet) = 0" by blast
  have second:
    "\<exists>b0. (symbol, b0) \<in> set (accumulate ex available_reply openOrdersBalances
                                 open_loans active_loans) \<and>
          available (b wallet) = available (b0 wallet) \<and>
          on_orders (b wallet) = on_orders (b0 wallet) \<and>
          wallet_total (b0 wallet) = 0"
  proof (intro exI conjI)
    show "(symbol, b0) \<in> set (accumulate ex available_reply openOrdersBalances
                                 open_loans active_loans)"
      using b0 by (simp add: accumulate_def)
    show "available (b wallet) = available (b0 wallet)" by (simp add: b)
    show "on_orders (b wallet) = on_orders (b0 wallet)" by (simp add: b)
    show "wallet_total (b0 wallet) = 0" by (rule zero)
  qed
  have first: "wallet_total (b wallet) = available (b wallet) + on_orders (b wallet)"
    by (simp add: b)
  have third: "\<forall>s b1 w. (s, b1) \<in> set ?A \<or> (s, b1) \<in> set ?B \<or> (s, b1) \<in> set ?C \<longrightarrow>
                 wallet_total (b1 w) = 0"
  proof (intro allI impI)
    fix s b1 w
    assume "(s, b1) \<in> set ?A \<or> (s, b1) \<in> set ?B \<or> (s, b1) \<in> set ?C"
    then show "wallet_total (b1 w) = 0"
    proof (elim disjE)
      assume "(s, b1) \<in> set ?A" with A show ?thesis by blast
    next
      assume "(s, b1) \<in> set ?B" with B show ?thesis by blast
    next
      assume "(s, b1) \<in> set ?C" with C show ?thesis by blast
    qed
  qed
  from first second third show ?thesis by (intro conjI)
qed

theorem fetchWalletBalance_total_witness:
  "map (\<lambda>(symbol, b).
          (symbol, map (\<lambda>w. (available (b w), on_orders (b w), wallet_total (b w)))
                     [Exchange, Margin, Lending]))
     (fetchWalletBalance scenario_exchange
        [(Exchange, [(''BTC'', 1), (''STR'', 5)]), (Lending, [(''BTC'', 2)])]
        [(''BTC'', 1/2), (''ETH'', 0)]
        [\<lparr> loan_symbol = ''BTC'', loan_amount = 3 \<rparr>]
        [\<lparr> loan_symbol = ''XLM'', loan_amount = 4 \<rparr>]) =
   [(''BTC'', [(1, 1/2, 3/2), (0, 0, 0), (2, 3, 5)]),
    (''XLM'', [(5, 0, 5), (0, 0, 0), (0, 4, 4)])]"
proof -
  let ?X = "fetchWalletBalance scenario_exchange
        [(Exchange, [(''BTC'', 1), (''STR'', 5)]), (Lending, [(''BTC'', 2)])]
        [(''BTC'', 1/2), (''ETH'', 0)]
        [\<lparr> loan_symbol = ''BTC'', loan_amount = 3 \<rparr>]
        [\<lparr> loan_symbol = ''XLM'', loan_amount = 4 \<rparr>]"
  have total: "wallet_total (b w) = available (b w) + on_orders (b w)"
    if "(symbol, b) \<in> set ?X" for symbol b w
    using fetchWalletBalance_total [OF that, of w] by blast
  have "map (\<lambda>(symbol, b).
          (symbol, map (\<lambda>w. (available (b w), on_orders (b w), wallet_total (b w)))
                     [Exchange, Margin, Lending])) ?X =
        map (\<lambda>(symbol, b).
          (symbol, map (\<lambda>w. (available (b w), on_orders (b w),
                              available (b w) + on_orders (b w)))
                     [Exchange, Margin, Lending])) ?X"
    by (rule map_cong [OF refl]) (auto simp: total)
  also have "\<dots> = [(''BTC'', [(1, 1/2, 3/2), (0, 0, 0), (2, 3, 5)]),
                      (''XLM'', [(5, 0, 5), (0, 0, 0), (0, 4, 4)])]"
    by (simp add: fetchWalletBalance_def accumulate_def calc_total_def calc_loans_def
        calc_on_orders_def calc_available_def add_loan_def add_on_orders_def
        add_available_def initSymbol_def commonCurrencyCode_def js_string_def
        scenario_exchange_def poloniex_commonCurrencies_def Let_def)
  finally show ?thesis .
qed

end
